theory Spec2Isabelle
  imports Main "HOL-Library.Word"
begin

unbundle bit_operations_syntax

section \<open>The USBFS control-endpoint driver of the DFU bootloader (usbfs.c)\<close>

text \<open>
  A shallow embedding of \<^verbatim>\<open>examples/dfu-bootloader/usbfs.c\<close>. The driver runs inside
  one interrupt handler and talks to the USB controller through memory-mapped registers.
  Every register access of the C code is an event of a trace kept in the state; the value
  a volatile read returns is chosen by the controller, here a function of the accesses
  made so far. The register and bit-field macros, the DFU handlers and the two DFU
  constants come from headers that are not part of the sources: they are parameters of
  the model, collected in an environment.
\<close>

subsection \<open>Registers, macros and events\<close>

type_synonym u8 = "8 word"
type_synonym u16 = "16 word"
type_synonym u32 = "32 word"

text \<open>The registers the code touches; \<open>DFIFO\<close> is \<^verbatim>\<open>USBFS->DFIFO[0][0]\<close>,
  \<open>DIEP_CTL i\<close> is \<^verbatim>\<open>USBFS->DIEP[i].CTL\<close>, and so on.\<close>

datatype reg =
    GINTF | GRSTATP | GRSTCTL | DFIFO | DCFG | DCTL | DSTAT
  | DAEPINT | DAEPINTEN | DOEPINTEN | DIEPINTEN
  | DIEP_CTL nat | DIEP_INTF nat | DIEP_LEN nat
  | DOEP_CTL nat | DOEP_INTF nat | DOEP_LEN nat
  | DBG_KEY | DBG_CMD

text \<open>The macros of the register headers, by name; a macro with an argument carries it.\<close>

datatype macro =
    USBFS_DIEPLEN_PCNT u32 | USBFS_DIEPCTL_EPEN | USBFS_DIEPCTL_CNAK | USBFS_DIEPCTL_STALL
  | USBFS_DIEPCTL_SNAK | USBFS_DIEPCTL_EPTYPE_CONTROL | USBFS_DIEP0CTL_MPL_64B
  | USBFS_DIEPINTF_IEPNE | USBFS_DIEPINTF_EPTXFUD | USBFS_DIEPINTF_CITO
  | USBFS_DIEPINTF_EPDIS | USBFS_DIEPINTF_TF
  | USBFS_DOEPLEN_STPCNT u32 | USBFS_DOEPLEN_PCNT u32 | USBFS_DOEPLEN_TLEN u32
  | USBFS_DOEPLEN_TLEN_Msk
  | USBFS_DOEPCTL_EPEN | USBFS_DOEPCTL_CNAK | USBFS_DOEPCTL_STALL | USBFS_DOEPCTL_SNAK
  | USBFS_DOEPCTL_EPTYPE_CONTROL | USBFS_DOEP0CTL_MPL_64B
  | USBFS_DOEPINTF_BTBSTP | USBFS_DOEPINTF_EPRXFOVR | USBFS_DOEPINTF_STPF
  | USBFS_DOEPINTF_EPDIS | USBFS_DOEPINTF_TF
  | USBFS_GRSTCTL_TXFNUM u32 | USBFS_GRSTCTL_TXFF
  | USBFS_DCFG_DAR_Msk | USBFS_DCFG_DAR u32
  | USBFS_DAEPINTEN_OEPIE u32 | USBFS_DAEPINTEN_IEPIE u32
  | USBFS_DOEPINTEN_STPFEN | USBFS_DOEPINTEN_TFEN | USBFS_DIEPINTEN_TFEN
  | USBFS_DCTL_CGINAK | USBFS_DSTAT_ES_Msk | USBFS_DSTAT_ES_FULL
  | USBFS_GRSTAT_EPNUM_Msk | USBFS_GRSTAT_BCOUNT_Msk | USBFS_GRSTAT_BCOUNT_Pos
  | USBFS_GRSTAT_RPCKST_Msk | USBFS_GRSTAT_RPCKST_STP
  | USBFS_GINTF_RXFNEIF | USBFS_GINTF_OEPIF | USBFS_GINTF_IEPIF | USBFS_GINTF_SP
  | USBFS_GINTF_WKUPIF | USBFS_GINTF_RST | USBFS_GINTF_ENUMF
  | DBG_KEY_UNLOCK | DBG_CMD_RESET

datatype event = Rd reg u32 | Wr reg u32 | Udelay nat

subsection \<open>Data model\<close>

text \<open>
  Modelled from the spec: \<^verbatim>\<open>struct usb_setup_packet\<close> is declared in usbfs.h, which is
  not part of the sources. Its wire format is requestType(1), request(1), value(2),
  index(2), length(2), little-endian; \<open>request\<close> is the 16-bit pair
  (bmRequestType, bRequest) read as one code, as the dispatch table's constants show
  (0x0680 is GET_DESCRIPTOR, 0x06, with request type 0x80).
\<close>

record usb_setup_packet =
  bmRequestType :: u8
  bRequest :: u8
  wValue :: u16
  wIndex :: u16
  wLength :: u16

definition request :: "usb_setup_packet \<Rightarrow> u16" where
  "request p = ucast (bmRequestType p) OR push_bit 8 (ucast (bRequest p))"

text \<open>
  The driver's variables. The object \<^verbatim>\<open>usbfs_outbuf\<close> is the two words \<^verbatim>\<open>v[2]\<close> of
  the union holding the setup packet, \<open>usbfs_outbuf_v\<close>, followed by the data bytes,
  \<open>usbfs_outbuf_data\<close>, kept as the words the cursor \<^verbatim>\<open>usbfs_state.ep0out\<close> writes.
  \<open>ep0out\<close> is that cursor as a word index into the object: 0 and 1 are \<^verbatim>\<open>v[0]\<close> and
  \<^verbatim>\<open>v[1]\<close>, word \<open>i + 2\<close> is word \<open>i\<close> of the data. \<open>ep0in\<close> is the IN source pointer
  as the bytes of the pointed-to object from the pointer on. \<open>oob\<close> records that the C code read or wrote outside the object a
  pointer points into, where C gives no meaning to what follows. \<open>io\<close> is the trace of
  register accesses, \<open>ext\<close> the state of the DFU protocol module.
\<close>

record 'x driver =
  ep0out :: nat
  ep0in :: "u8 list"
  bytes :: u32
  usbfs_outbuf_v :: "u32 \<times> u32"
  usbfs_outbuf_data :: "u32 list"
  usbfs_status :: u16
  usbfs_reboot_on_ack :: bool
  oob :: bool
  io :: "event list"
  ext :: 'x

text \<open>An endpoint event either returns to its caller or ends in the system reset that
  the two writes to the debug unit request.\<close>

datatype 'a outcome = Continue 'a | SystemReset 'a

fun outcome_state :: "'a outcome \<Rightarrow> 'a" where
  "outcome_state (Continue s) = s"
| "outcome_state (SystemReset s) = s"

text \<open>A setup handler gets the packet and the data pointer and returns its \<^verbatim>\<open>int\<close>
  result with the data pointer as it left it. The DFU handlers live in another module:
  they see their own state and the exported flag \<^verbatim>\<open>usbfs_reboot_on_ack\<close> only.\<close>

type_synonym 'x handler_fn =
  "usb_setup_packet \<Rightarrow> u8 list \<Rightarrow> 'x driver \<Rightarrow> int \<times> u8 list \<times> 'x driver"

type_synonym 'x dfu_fn =
  "usb_setup_packet \<Rightarrow> u8 list \<Rightarrow> 'x \<Rightarrow> bool \<Rightarrow> int \<times> u8 list \<times> 'x \<times> bool"

text \<open>
  Modelled from the spec: \<^verbatim>\<open>struct usb_setup_handler\<close> is declared in usbfs.h. A rule
  holds the combined request code, the interface index and the expected length, where
  the initialiser -1 compared against 0xFFU is the wildcard, so both are 8-bit.
\<close>

record 'x usb_setup_handler =
  req :: u16
  idx :: u8
  len :: u8
  fn :: "'x handler_fn"

record 'x env =
  K :: "macro \<Rightarrow> u32"
  hw :: "event list \<Rightarrow> reg \<Rightarrow> u32"
  DFU_INTERFACE :: u8
  DFU_TRANSFERSIZE :: nat
  dfu_detach :: "'x dfu_fn"
  dfu_dnload :: "'x dfu_fn"
  dfu_upload :: "'x dfu_fn"
  dfu_getstatus :: "'x dfu_fn"
  dfu_clrstatus :: "'x dfu_fn"
  dfu_getstate :: "'x dfu_fn"
  dfu_abort :: "'x dfu_fn"

subsection \<open>Register access\<close>

definition reg_read :: "'x env \<Rightarrow> reg \<Rightarrow> 'x driver \<Rightarrow> u32 \<times> 'x driver" where
  "reg_read E r s = (let v = hw E (io s) r in (v, s\<lparr>io := io s @ [Rd r v]\<rparr>))"

definition reg_write :: "reg \<Rightarrow> u32 \<Rightarrow> 'x driver \<Rightarrow> 'x driver" where
  "reg_write r v s = s\<lparr>io := io s @ [Wr r v]\<rparr>"

text \<open>\<^verbatim>\<open>R |= m\<close> and \<^verbatim>\<open>R &= ~m\<close>: a read followed by a write.\<close>

definition reg_set :: "'x env \<Rightarrow> reg \<Rightarrow> u32 \<Rightarrow> 'x driver \<Rightarrow> 'x driver" where
  "reg_set E r m s = (case reg_read E r s of (v, s') \<Rightarrow> reg_write r (v OR m) s')"

definition reg_clear :: "'x env \<Rightarrow> reg \<Rightarrow> u32 \<Rightarrow> 'x driver \<Rightarrow> 'x driver" where
  "reg_clear E r m s = (case reg_read E r s of (v, s') \<Rightarrow> reg_write r (v AND NOT m) s')"

text \<open>\<^verbatim>\<open>mtimer_udelay\<close> is a library routine; the model keeps the call as an event.\<close>

definition mtimer_udelay :: "nat \<Rightarrow> 'x driver \<Rightarrow> 'x driver" where
  "mtimer_udelay n s = s\<lparr>io := io s @ [Udelay n]\<rparr>"

subsection \<open>Descriptors\<close>

text \<open>
  Modelled from the spec: the descriptor structs are declared in usbfs.h; the bytes
  below are the initialisers of usbfs.c laid out as the USB descriptor formats say
  (multi-byte fields little-endian, \<^verbatim>\<open>USB_WORD\<close> giving the low byte, then the high).
\<close>

definition usb_word :: "nat \<Rightarrow> u8 list" where
  "usb_word x = [of_nat (x mod 256), of_nat (x div 256 mod 256)]"

definition usbfs_descriptor_device :: "u8 list" where
  "usbfs_descriptor_device =
     [18, 0x01] @ usb_word 0x0200 @ [0x00, 0x00, 0x00, 64] @ usb_word 0x1d50 @
     usb_word 0x613e @ usb_word 0x0200 @ [1, 2, 3, 1]"

definition usbfs_descriptor_configuration1 :: "'x env \<Rightarrow> u8 list" where
  "usbfs_descriptor_configuration1 E =
     [9, 0x02] @ usb_word (9 + 9 + 9) @ [1, 1, 0, 0x80, 250] @
     [9, 0x04, DFU_INTERFACE E, 0, 0, 0xFE, 0x01, 0x02, 4] @
     [9, 0x21, 0x0f] @ usb_word 500 @ usb_word (DFU_TRANSFERSIZE E) @ usb_word 0x0101"

definition usb_descriptor_string :: "nat \<Rightarrow> nat list \<Rightarrow> u8 list" where
  "usb_descriptor_string bLength wCodepoint =
     [of_nat bLength, 0x03] @ concat (map usb_word wCodepoint)"

definition usbfs_descriptor_string :: "u8 list list" where
  "usbfs_descriptor_string =
     [usb_descriptor_string 4 [0x0409],
      usb_descriptor_string 16 (map of_char ''Labitat''),
      usb_descriptor_string 20 (map of_char ''GD32VF103''),
      usb_descriptor_string 26 (map of_char ''000000000001''),
      usb_descriptor_string 20 (map of_char ''GeckoBoot'')]"

subsection \<open>Endpoint 0 primitives\<close>

text \<open>The loop of \<^verbatim>\<open>usbfs_ep0in_transfer\<close> over the bytes between \<^verbatim>\<open>p\<close> and
  \<^verbatim>\<open>end\<close>: four bytes a word, the last word from what is left.\<close>

fun ep0in_words :: "u8 list \<Rightarrow> u32 list" where
  "ep0in_words (a # b # c # d # p) =
     (ucast a OR push_bit 8 (ucast b) OR push_bit 16 (ucast c) OR push_bit 24 (ucast d))
       # ep0in_words p"
| "ep0in_words [a, b, c] = [ucast a OR push_bit 8 (ucast b) OR push_bit 16 (ucast c)]"
| "ep0in_words [a, b] = [ucast a OR push_bit 8 (ucast b)]"
| "ep0in_words [a] = [ucast a]"
| "ep0in_words [] = []"

definition usbfs_ep0in_transfer :: "'x env \<Rightarrow> 'x driver \<Rightarrow> 'x driver" where
  "usbfs_ep0in_transfer E s =
     (let n = (if bytes s > 64 then 64 else bytes s);
          s1 = reg_write (DIEP_LEN 0) (K E (USBFS_DIEPLEN_PCNT 1) OR n) s;
          s2 = reg_set E (DIEP_CTL 0) (K E USBFS_DIEPCTL_EPEN OR K E USBFS_DIEPCTL_CNAK) s1;
          s3 = fold (reg_write DFIFO) (ep0in_words (take (unat n) (ep0in s))) s2
      in s3\<lparr>oob := oob s3 \<or> length (ep0in s) < unat n\<rparr>)"

definition usbfs_ep0in_transfer_empty :: "'x env \<Rightarrow> 'x driver \<Rightarrow> 'x driver" where
  "usbfs_ep0in_transfer_empty E s = usbfs_ep0in_transfer E s"

definition usbfs_ep0in_stall :: "'x env \<Rightarrow> 'x driver \<Rightarrow> 'x driver" where
  "usbfs_ep0in_stall E s = reg_set E (DIEP_CTL 0) (K E USBFS_DIEPCTL_STALL) s"

definition usbfs_ep0out_prepare_setup :: "'x env \<Rightarrow> 'x driver \<Rightarrow> 'x driver" where
  "usbfs_ep0out_prepare_setup E s =
     reg_set E (DOEP_CTL 0) (K E USBFS_DOEPCTL_EPEN OR K E USBFS_DOEPCTL_STALL)
       (reg_write (DOEP_LEN 0)
          (K E (USBFS_DOEPLEN_STPCNT 3) OR K E (USBFS_DOEPLEN_PCNT 0) OR
           K E (USBFS_DOEPLEN_TLEN 0)) s)"

definition usbfs_ep0out_prepare_out :: "'x env \<Rightarrow> 'x driver \<Rightarrow> 'x driver" where
  "usbfs_ep0out_prepare_out E s =
     reg_set E (DOEP_CTL 0) (K E USBFS_DOEPCTL_EPEN OR K E USBFS_DOEPCTL_CNAK)
       (reg_write (DOEP_LEN 0)
          (K E (USBFS_DOEPLEN_STPCNT 3) OR K E (USBFS_DOEPLEN_PCNT 1) OR
           K E (USBFS_DOEPLEN_TLEN 64)) s)"

subsection \<open>Standard request handlers\<close>

definition usbfs_handle_get_status_device :: "'x handler_fn" where
  "usbfs_handle_get_status_device p data s =
     (2, [ucast (usbfs_status s), ucast (drop_bit 8 (usbfs_status s))], s)"

definition usbfs_handle_set_address :: "'x env \<Rightarrow> 'x handler_fn" where
  "usbfs_handle_set_address E p data s =
     (case reg_read E DCFG s of (v, s') \<Rightarrow>
        (0, data,
         reg_write DCFG
           ((v AND NOT (K E USBFS_DCFG_DAR_Msk)) OR K E (USBFS_DCFG_DAR (ucast (wValue p))))
           s'))"

definition usbfs_handle_get_descriptor_device :: "u8 list \<Rightarrow> u8 \<Rightarrow> int \<times> u8 list" where
  "usbfs_handle_get_descriptor_device data index =
     (if index \<noteq> 0 then (-1, data)
      else (int (length usbfs_descriptor_device), usbfs_descriptor_device))"

definition usbfs_handle_get_descriptor_configuration ::
  "'x env \<Rightarrow> u8 list \<Rightarrow> u8 \<Rightarrow> int \<times> u8 list" where
  "usbfs_handle_get_descriptor_configuration E data index =
     (if index \<noteq> 0 then (-1, data)
      else (9 + 9 + 9, usbfs_descriptor_configuration1 E))"

definition usbfs_handle_get_descriptor_string :: "u8 list \<Rightarrow> u8 \<Rightarrow> int \<times> u8 list" where
  "usbfs_handle_get_descriptor_string data index =
     (if unat index \<ge> length usbfs_descriptor_string then (-1, data)
      else (let desc = usbfs_descriptor_string ! unat index
            in (uint (hd desc), desc)))"

definition usbfs_handle_get_descriptor :: "'x env \<Rightarrow> 'x handler_fn" where
  "usbfs_handle_get_descriptor E p data s =
     (let ty = (ucast (drop_bit 8 (wValue p)) :: u8);
          index = (ucast (wValue p AND 0xFF) :: u8)
      in if ty = 0x01 then
           (case usbfs_handle_get_descriptor_device data index of (r, d) \<Rightarrow> (r, d, s))
         else if ty = 0x02 then
           (case usbfs_handle_get_descriptor_configuration E data index of
              (r, d) \<Rightarrow> (r, d, s))
         else if ty = 0x03 then
           (case usbfs_handle_get_descriptor_string data index of (r, d) \<Rightarrow> (r, d, s))
         else (-1, data, s))"

definition usbfs_handle_get_configuration :: "'x env \<Rightarrow> 'x handler_fn" where
  "usbfs_handle_get_configuration E p data s =
     (1, drop 5 (usbfs_descriptor_configuration1 E), s)"

definition usbfs_handle_set_configuration :: "'x handler_fn" where
  "usbfs_handle_set_configuration p data s =
     (if wValue p \<noteq> 1 then (-1, data, s) else (0, data, s))"

definition usbfs_handle_set_interface0 :: "'x handler_fn" where
  "usbfs_handle_set_interface0 p data s =
     (if wValue p \<noteq> 0 then (-1, data, s) else (0, data, s))"

definition usbfs_handle_clear_feature_endpoint :: "'x handler_fn" where
  "usbfs_handle_clear_feature_endpoint p data s = (-1, data, s)"

text \<open>A call into the DFU module.\<close>

definition dfu_call :: "'x dfu_fn \<Rightarrow> 'x handler_fn" where
  "dfu_call f p data s =
     (case f p data (ext s) (usbfs_reboot_on_ack s) of
        (r, d, x, rb) \<Rightarrow> (r, d, s\<lparr>usbfs_reboot_on_ack := rb, ext := x\<rparr>))"

subsection \<open>The dispatch table\<close>

definition usbfs_setup_handlers :: "'x env \<Rightarrow> 'x usb_setup_handler list" where
  "usbfs_setup_handlers E =
     [\<lparr>req = 0x0080, idx = 0, len = -1, fn = usbfs_handle_get_status_device\<rparr>,
      \<lparr>req = 0x0500, idx = 0, len = 0, fn = usbfs_handle_set_address E\<rparr>,
      \<lparr>req = 0x0680, idx = -1, len = -1, fn = usbfs_handle_get_descriptor E\<rparr>,
      \<lparr>req = 0x0880, idx = 0, len = -1, fn = usbfs_handle_get_configuration E\<rparr>,
      \<lparr>req = 0x0900, idx = 0, len = 0, fn = usbfs_handle_set_configuration\<rparr>,
      \<lparr>req = 0x0102, idx = 0, len = 0, fn = usbfs_handle_clear_feature_endpoint\<rparr>,
      \<lparr>req = 0x0b01, idx = DFU_INTERFACE E, len = 0, fn = usbfs_handle_set_interface0\<rparr>,
      \<lparr>req = 0x0021, idx = DFU_INTERFACE E, len = 0, fn = dfu_call (dfu_detach E)\<rparr>,
      \<lparr>req = 0x0121, idx = DFU_INTERFACE E, len = -1, fn = dfu_call (dfu_dnload E)\<rparr>,
      \<lparr>req = 0x02a1, idx = DFU_INTERFACE E, len = -1, fn = dfu_call (dfu_upload E)\<rparr>,
      \<lparr>req = 0x03a1, idx = DFU_INTERFACE E, len = -1, fn = dfu_call (dfu_getstatus E)\<rparr>,
      \<lparr>req = 0x0421, idx = DFU_INTERFACE E, len = 0, fn = dfu_call (dfu_clrstatus E)\<rparr>,
      \<lparr>req = 0x05a1, idx = DFU_INTERFACE E, len = -1, fn = dfu_call (dfu_getstate E)\<rparr>,
      \<lparr>req = 0x0621, idx = DFU_INTERFACE E, len = 0, fn = dfu_call (dfu_abort E)\<rparr>]"

text \<open>The \<^verbatim>\<open>for\<close> loop of \<^verbatim>\<open>usbfs_setup_handler_run\<close> over the rules from \<^verbatim>\<open>h\<close> to the
  end of the table. The \<^verbatim>\<open>break\<close> leaves the loop for the \<^verbatim>\<open>return -1\<close> after it.\<close>

fun usbfs_setup_handler_scan :: "'x usb_setup_handler list \<Rightarrow> 'x handler_fn" where
  "usbfs_setup_handler_scan [] p data s = (-1, data, s)"
| "usbfs_setup_handler_scan (h # hs) p data s =
     (if req h = request p \<and> (idx h = 0xFF \<or> idx h = ucast (wIndex p)) then
        (if len h \<noteq> 0xFF \<and> ucast (len h) \<noteq> wLength p then (-1, data, s)
         else fn h p data s)
      else usbfs_setup_handler_scan hs p data s)"

definition usbfs_setup_handler_run :: "'x env \<Rightarrow> 'x handler_fn" where
  "usbfs_setup_handler_run E p data s =
     usbfs_setup_handler_scan (usbfs_setup_handlers E) p data s"

text \<open>
  The resolution as the specification words it, for comparison with the code: rules are
  evaluated in declaration order, the first rule that matches in code, index and length
  wins, and a rule whose length does not match is passed over.
\<close>

fun spec_resolve :: "'x usb_setup_handler list \<Rightarrow> 'x handler_fn" where
  "spec_resolve [] p data s = (-1, data, s)"
| "spec_resolve (h # hs) p data s =
     (if req h = request p \<and> (idx h = 0xFF \<or> idx h = ucast (wIndex p)) \<and>
         (len h = 0xFF \<or> ucast (len h) = wLength p)
      then fn h p data s else spec_resolve hs p data s)"

subsection \<open>Setup packets\<close>

text \<open>\<^verbatim>\<open>usbfs_outbuf.setup\<close>: the fields of the packet read from the two words of the
  union (the target is little-endian).\<close>

definition usbfs_outbuf_setup :: "'x driver \<Rightarrow> usb_setup_packet" where
  "usbfs_outbuf_setup s =
     (case usbfs_outbuf_v s of (v0, v1) \<Rightarrow>
        \<lparr>bmRequestType = ucast v0, bRequest = ucast (drop_bit 8 v0),
         wValue = ucast (drop_bit 16 v0), wIndex = ucast v1,
         wLength = ucast (drop_bit 16 v1)\<rparr>)"

text \<open>\<^verbatim>\<open>usbfs_outbuf.data\<close> as the bytes a handler reads through its data pointer.\<close>

definition word_bytes :: "u32 \<Rightarrow> u8 list" where
  "word_bytes w = [ucast w, ucast (drop_bit 8 w), ucast (drop_bit 16 w), ucast (drop_bit 24 w)]"

definition usbfs_outbuf_data_bytes :: "'x env \<Rightarrow> 'x driver \<Rightarrow> u8 list" where
  "usbfs_outbuf_data_bytes E s =
     take (DFU_TRANSFERSIZE E) (concat (map word_bytes (usbfs_outbuf_data s)))"

text \<open>In \<^verbatim>\<open>usbfs_handle_setup\<close> the local \<^verbatim>\<open>data\<close> pointer is not initialised before the
  dispatch; the model passes the empty list, a pointer to no readable byte.\<close>

definition usbfs_handle_setup :: "'x env \<Rightarrow> 'x driver \<Rightarrow> 'x driver" where
  "usbfs_handle_setup E s0 =
     (let p = usbfs_outbuf_setup s0;
          s = s0\<lparr>bytes := 0\<rparr>;
          stall = (\<lambda>s'. usbfs_ep0out_prepare_setup E (usbfs_ep0in_stall E s'))
      in if bmRequestType p AND 0x80 \<noteq> 0 then
           (case usbfs_setup_handler_run E p [] s of
              (ret, data, s1) \<Rightarrow>
                if ret \<ge> 0 then
                  (let ret' = (if ret > uint (wLength p) then uint (wLength p) else ret)
                   in usbfs_ep0out_prepare_out E
                        (usbfs_ep0in_transfer E
                           (s1\<lparr>ep0in := data, bytes := word_of_int ret'\<rparr>)))
                else stall s1)
         else if wLength p = 0 then
           (case usbfs_setup_handler_run E p [] s of
              (ret, data, s1) \<Rightarrow>
                if ret = 0 then
                  usbfs_ep0out_prepare_setup E (usbfs_ep0in_transfer_empty E s1)
                else stall s1)
         else if unat (wLength p) \<le> DFU_TRANSFERSIZE E then
           (usbfs_ep0out_prepare_out E s)\<lparr>bytes := ucast (wLength p)\<rparr>
         else stall s)"

subsection \<open>Endpoint 0 events\<close>

definition usbfs_handle_ep0 :: "'x env \<Rightarrow> 'x driver \<Rightarrow> 'x driver outcome" where
  "usbfs_handle_ep0 E s0 =
     (case reg_read E (DOEP_INTF 0) s0 of (oflags, s1) \<Rightarrow>
      case reg_read E (DIEP_INTF 0) s1 of (iflags, s2) \<Rightarrow>
        (let s = reg_write (DIEP_INTF 0) iflags (reg_write (DOEP_INTF 0) oflags s2)
         in if oflags AND K E USBFS_DOEPINTF_STPF \<noteq> 0 then Continue (usbfs_handle_setup E s)
            else if bytes s = 0 then
              (if usbfs_reboot_on_ack s then
                 SystemReset
                   (reg_write DBG_CMD (K E DBG_CMD_RESET)
                      (reg_write DBG_KEY (K E DBG_KEY_UNLOCK) s))
               else Continue s)
            else if iflags AND K E USBFS_DIEPINTF_TF \<noteq> 0 then
              (if bytes s > 64 then
                 Continue
                   (usbfs_ep0in_transfer E
                      (s\<lparr>ep0in := drop 64 (ep0in s), bytes := bytes s - 64\<rparr>))
               else Continue (s\<lparr>bytes := 0\<rparr>))
            else if oflags AND K E USBFS_DOEPINTF_TF \<noteq> 0 then
              (case reg_read E (DOEP_LEN 0) s of (l, s3) \<Rightarrow>
                 (let n = 64 - (l AND K E USBFS_DOEPLEN_TLEN_Msk)
                  in if bytes s3 > n then
                       Continue (usbfs_ep0out_prepare_out E (s3\<lparr>bytes := bytes s3 - n\<rparr>))
                     else
                       (case usbfs_setup_handler_run E (usbfs_outbuf_setup s3)
                               (usbfs_outbuf_data_bytes E s3) (s3\<lparr>bytes := 0\<rparr>) of
                          (ret, data, s4) \<Rightarrow>
                            Continue
                              (usbfs_ep0out_prepare_setup E
                                 (if ret = 0 then usbfs_ep0in_transfer_empty E s4
                                  else usbfs_ep0in_stall E s4)))))
            else Continue s))"

definition usbfs_handle_endpoints :: "'x env \<Rightarrow> 'x driver \<Rightarrow> 'x driver outcome" where
  "usbfs_handle_endpoints E s =
     (case reg_read E DAEPINT s of (flags, s1) \<Rightarrow>
        if flags AND 0x10001 \<noteq> 0 then usbfs_handle_ep0 E s1 else Continue s1)"

subsection \<open>The FIFO reader\<close>

text \<open>\<^verbatim>\<open>*usbfs_state.ep0out++ = v\<close>: a store through the cursor. A store past the end of
  \<^verbatim>\<open>usbfs_outbuf\<close> lands outside the object and is recorded in \<open>oob\<close>.\<close>

definition ep0out_store :: "u32 \<Rightarrow> 'x driver \<Rightarrow> 'x driver" where
  "ep0out_store v s =
     (let i = ep0out s;
          s' = (if i = 0 then s\<lparr>usbfs_outbuf_v := (v, snd (usbfs_outbuf_v s))\<rparr>
                else if i = 1 then s\<lparr>usbfs_outbuf_v := (fst (usbfs_outbuf_v s), v)\<rparr>
                else if i - 2 < length (usbfs_outbuf_data s) then
                  s\<lparr>usbfs_outbuf_data := (usbfs_outbuf_data s)[i - 2 := v]\<rparr>
                else s\<lparr>oob := True\<rparr>)
      in s'\<lparr>ep0out := i + 1\<rparr>)"

text \<open>\<^verbatim>\<open>for (; len > 8; len -= 4) (void)USBFS->DFIFO[0][0];\<close>\<close>

fun rxdata_discard :: "'x env \<Rightarrow> nat \<Rightarrow> 'x driver \<Rightarrow> 'x driver" where
  "rxdata_discard E n s =
     (if n > 8 then rxdata_discard E (n - 4) (snd (reg_read E DFIFO s)) else s)"

text \<open>The \<^verbatim>\<open>while (1)\<close> loop of the OUT data branch.\<close>

fun rxdata_store :: "'x env \<Rightarrow> nat \<Rightarrow> 'x driver \<Rightarrow> 'x driver" where
  "rxdata_store E n s =
     (case reg_read E DFIFO s of (v, s1) \<Rightarrow>
        (let s2 = ep0out_store v s1
         in if n \<le> 4 then s2 else rxdata_store E (n - 4) s2))"

definition usbfs_handle_rxdata :: "'x env \<Rightarrow> 'x driver \<Rightarrow> 'x driver" where
  "usbfs_handle_rxdata E s =
     (case reg_read E GRSTATP s of (grstat, s1) \<Rightarrow>
        if grstat AND K E USBFS_GRSTAT_EPNUM_Msk \<noteq> 0 then s1
        else
          (let n = unat (drop_bit (unat (K E USBFS_GRSTAT_BCOUNT_Pos))
                          (grstat AND K E USBFS_GRSTAT_BCOUNT_Msk))
           in if n = 0 then s1
              else if grstat AND K E USBFS_GRSTAT_RPCKST_Msk = K E USBFS_GRSTAT_RPCKST_STP then
                (case reg_read E DFIFO ((rxdata_discard E n s1)\<lparr>ep0out := 0\<rparr>) of
                   (a, s2) \<Rightarrow>
                     (case reg_read E DFIFO (ep0out_store a s2) of
                        (b, s3) \<Rightarrow> ep0out_store b s3))
              else rxdata_store E n s1))"

subsection \<open>Bus events\<close>

definition usbfs_suspend :: "'x driver \<Rightarrow> 'x driver" where
  "usbfs_suspend s = s"

definition usbfs_wakeup :: "'x driver \<Rightarrow> 'x driver" where
  "usbfs_wakeup s = s"

text \<open>\<^verbatim>\<open>while ((USBFS->GRSTCTL & USBFS_GRSTCTL_TXFF)) /* wait */;\<close> The controller decides
  when the bit clears: a loop that never ends has the value \<open>None\<close>.\<close>

partial_function (option) usbfs_txfifos_flush_wait :: "'x env \<Rightarrow> 'x driver \<Rightarrow> 'x driver option"
  where
  "usbfs_txfifos_flush_wait E s =
     (case reg_read E GRSTCTL s of (v, s1) \<Rightarrow>
        if v AND K E USBFS_GRSTCTL_TXFF \<noteq> 0 then usbfs_txfifos_flush_wait E s1
        else Some s1)"

declare usbfs_txfifos_flush_wait.simps [code]

definition usbfs_txfifos_flush :: "'x env \<Rightarrow> 'x driver \<Rightarrow> 'x driver option" where
  "usbfs_txfifos_flush E s =
     map_option (mtimer_udelay 3)
       (usbfs_txfifos_flush_wait E
          (reg_set E GRSTCTL (K E (USBFS_GRSTCTL_TXFNUM 0x10) OR K E USBFS_GRSTCTL_TXFF) s))"

definition diep_intf_all :: "'x env \<Rightarrow> u32" where
  "diep_intf_all E =
     K E USBFS_DIEPINTF_IEPNE OR K E USBFS_DIEPINTF_EPTXFUD OR K E USBFS_DIEPINTF_CITO OR
     K E USBFS_DIEPINTF_EPDIS OR K E USBFS_DIEPINTF_TF"

definition doep_intf_all :: "'x env \<Rightarrow> u32" where
  "doep_intf_all E =
     K E USBFS_DOEPINTF_BTBSTP OR K E USBFS_DOEPINTF_EPRXFOVR OR K E USBFS_DOEPINTF_STPF OR
     K E USBFS_DOEPINTF_EPDIS OR K E USBFS_DOEPINTF_TF"

definition usbfs_ep_reset :: "'x env \<Rightarrow> 'x driver \<Rightarrow> 'x driver" where
  "usbfs_ep_reset E s =
     (let s1 = reg_write (DIEP_CTL 0)
                 (K E USBFS_DIEPCTL_STALL OR K E USBFS_DIEPCTL_EPTYPE_CONTROL OR
                  K E USBFS_DIEP0CTL_MPL_64B) s;
          s2 = reg_write (DIEP_INTF 0) (diep_intf_all E) s1;
          s3 = fold (\<lambda>i t. reg_write (DIEP_LEN i) 0
                        (reg_write (DIEP_INTF i) (diep_intf_all E)
                           (reg_write (DIEP_CTL i) (K E USBFS_DIEPCTL_SNAK) t)))
                 [1, 2, 3] s2;
          s4 = reg_write (DOEP_CTL 0)
                 (K E USBFS_DOEPCTL_STALL OR K E USBFS_DOEPCTL_EPTYPE_CONTROL OR
                  K E USBFS_DOEP0CTL_MPL_64B) s3;
          s5 = reg_write (DOEP_INTF 0) (doep_intf_all E) s4
      in fold (\<lambda>i t. reg_write (DOEP_LEN i) 0
                   (reg_write (DOEP_INTF i) (doep_intf_all E)
                      (reg_write (DOEP_CTL i) (K E USBFS_DOEPCTL_SNAK) t)))
           [1, 2, 3] s5)"

definition usbfs_reset :: "'x env \<Rightarrow> 'x driver \<Rightarrow> 'x driver option" where
  "usbfs_reset E s =
     (case usbfs_txfifos_flush E s of
        None \<Rightarrow> None
      | Some s1 \<Rightarrow>
          (let s2 = usbfs_ep_reset E s1;
               s3 = reg_clear E DCFG (K E USBFS_DCFG_DAR_Msk) s2;
               s4 = reg_write DAEPINTEN
                      (K E (USBFS_DAEPINTEN_OEPIE 1) OR K E (USBFS_DAEPINTEN_IEPIE 1)) s3;
               s5 = reg_write DOEPINTEN
                      (K E USBFS_DOEPINTEN_STPFEN OR K E USBFS_DOEPINTEN_TFEN) s4;
               s6 = reg_write DIEPINTEN (K E USBFS_DIEPINTEN_TFEN) s5
           in Some (s6\<lparr>bytes := 0\<rparr>)))"

definition usbfs_enumdone :: "'x env \<Rightarrow> 'x driver \<Rightarrow> 'x driver" where
  "usbfs_enumdone E s =
     (let s1 = reg_set E DCTL (K E USBFS_DCTL_CGINAK) s
      in case reg_read E DSTAT s1 of (v, s2) \<Rightarrow>
           if v AND K E USBFS_DSTAT_ES_Msk = K E USBFS_DSTAT_ES_FULL then
             usbfs_ep0out_prepare_setup E s2
           else s2)"

subsection \<open>The interrupt handler\<close>

text \<open>\<^verbatim>\<open>while ((flags & USBFS_GINTF_RXFNEIF)) { usbfs_handle_rxdata(); flags = USBFS->GINTF; }\<close>
  It ends when the controller reports the receive FIFO empty.\<close>

partial_function (option) usbfs_irq_rxloop ::
  "'x env \<Rightarrow> u32 \<Rightarrow> 'x driver \<Rightarrow> (u32 \<times> 'x driver) option" where
  "usbfs_irq_rxloop E flags s =
     (if flags AND K E USBFS_GINTF_RXFNEIF \<noteq> 0 then
        (case reg_read E GINTF (usbfs_handle_rxdata E s) of
           (flags', s') \<Rightarrow> usbfs_irq_rxloop E flags' s')
      else Some (flags, s))"

declare usbfs_irq_rxloop.simps [code]

text \<open>What follows the endpoint handling: suspend, wakeup, reset, enumeration done.\<close>

definition usbfs_irq_bus :: "'x env \<Rightarrow> u32 \<Rightarrow> 'x driver \<Rightarrow> 'x driver option" where
  "usbfs_irq_bus E flags s =
     (if flags AND K E USBFS_GINTF_SP \<noteq> 0 then
        Some (reg_write GINTF (K E USBFS_GINTF_SP) (usbfs_suspend s))
      else
        (let s1 = (if flags AND K E USBFS_GINTF_WKUPIF \<noteq> 0 then
                     reg_write GINTF (K E USBFS_GINTF_WKUPIF) (usbfs_wakeup s)
                   else s)
         in case (if flags AND K E USBFS_GINTF_RST \<noteq> 0 then
                    map_option (reg_write GINTF (K E USBFS_GINTF_RST)) (usbfs_reset E s1)
                  else Some s1) of
              None \<Rightarrow> None
            | Some s2 \<Rightarrow>
                Some (if flags AND K E USBFS_GINTF_ENUMF \<noteq> 0 then
                        reg_write GINTF (K E USBFS_GINTF_ENUMF) (usbfs_enumdone E s2)
                      else s2)))"

definition USBFS_IRQHandler :: "'x env \<Rightarrow> 'x driver \<Rightarrow> 'x driver outcome option" where
  "USBFS_IRQHandler E s =
     (case reg_read E GINTF s of (flags0, s1) \<Rightarrow>
        (case usbfs_irq_rxloop E flags0 s1 of
           None \<Rightarrow> None
         | Some (flags, s2) \<Rightarrow>
             (case (if flags AND (K E USBFS_GINTF_OEPIF OR K E USBFS_GINTF_IEPIF) \<noteq> 0
                    then usbfs_handle_endpoints E s2 else Continue s2) of
                SystemReset s3 \<Rightarrow> Some (SystemReset s3)
              | Continue s3 \<Rightarrow> map_option Continue (usbfs_irq_bus E flags s3))))"

subsection \<open>Runs and traces\<close>

text \<open>The controller raises one endpoint 0 interrupt after the other: \<open>n\<close> calls of
  \<^verbatim>\<open>usbfs_handle_ep0\<close>, unless one of them resets the system.\<close>

fun usbfs_ep0_events :: "'x env \<Rightarrow> nat \<Rightarrow> 'x driver \<Rightarrow> 'x driver outcome" where
  "usbfs_ep0_events E 0 s = Continue s"
| "usbfs_ep0_events E (Suc n) s =
     (case usbfs_handle_ep0 E s of
        Continue s' \<Rightarrow> usbfs_ep0_events E n s'
      | SystemReset s' \<Rightarrow> SystemReset s')"

text \<open>The IN packets armed in a trace: the values written to \<^verbatim>\<open>USBFS->DIEP[0].LEN\<close>.\<close>

definition diep0_len_writes :: "event list \<Rightarrow> u32 list" where
  "diep0_len_writes t =
     concat (map (\<lambda>e. case e of Wr r v \<Rightarrow> if r = DIEP_LEN 0 then [v] else [] | _ \<Rightarrow> []) t)"

text \<open>The accesses of the receive path: a read of the interrupt flags \<^verbatim>\<open>GINTF\<close>, of the
  receive status \<^verbatim>\<open>GRSTATP\<close> or of the FIFO.\<close>

definition is_rx_read :: "event \<Rightarrow> bool" where
  "is_rx_read e = (case e of Rd r v \<Rightarrow> r = GINTF \<or> r = GRSTATP \<or> r = DFIFO | _ \<Rightarrow> False)"

text \<open>\<open>io_ext P s s'\<close>: the trace of \<open>s'\<close> is the trace of \<open>s\<close> followed by events that
  all satisfy \<open>P\<close>.\<close>

definition io_ext :: "(event \<Rightarrow> bool) \<Rightarrow> 'x driver \<Rightarrow> 'x driver \<Rightarrow> bool" where
  "io_ext P s s' =
     (take (length (io s)) (io s') = io s \<and> list_all P (drop (length (io s)) (io s')))"

subsection \<open>A sample environment\<close>

text \<open>
  The theorems below hold for every environment. To run the model on concrete inputs an
  environment is needed: \<open>K0\<close> assigns each macro a value (one bit or field per name, in
  the manner of the controller's register map), \<open>hw_script\<close> is a controller that
  answers the successive reads of each register from a list and with 0 after that, and
  the sample DFU handlers count their calls in the module state.
\<close>

definition K0 :: "macro \<Rightarrow> u32" where
  "K0 m =
     (case m of
        USBFS_DIEPLEN_PCNT x \<Rightarrow> push_bit 19 x
      | USBFS_DIEPCTL_EPEN \<Rightarrow> 0x80000000
      | USBFS_DIEPCTL_CNAK \<Rightarrow> 0x04000000
      | USBFS_DIEPCTL_STALL \<Rightarrow> 0x00200000
      | USBFS_DIEPCTL_SNAK \<Rightarrow> 0x08000000
      | USBFS_DIEPCTL_EPTYPE_CONTROL \<Rightarrow> 0
      | USBFS_DIEP0CTL_MPL_64B \<Rightarrow> 0
      | USBFS_DIEPINTF_IEPNE \<Rightarrow> 0x40
      | USBFS_DIEPINTF_EPTXFUD \<Rightarrow> 0x10
      | USBFS_DIEPINTF_CITO \<Rightarrow> 0x08
      | USBFS_DIEPINTF_EPDIS \<Rightarrow> 0x02
      | USBFS_DIEPINTF_TF \<Rightarrow> 0x01
      | USBFS_DOEPLEN_STPCNT x \<Rightarrow> push_bit 29 x
      | USBFS_DOEPLEN_PCNT x \<Rightarrow> push_bit 19 x
      | USBFS_DOEPLEN_TLEN x \<Rightarrow> x
      | USBFS_DOEPLEN_TLEN_Msk \<Rightarrow> 0x7F
      | USBFS_DOEPCTL_EPEN \<Rightarrow> 0x80000000
      | USBFS_DOEPCTL_CNAK \<Rightarrow> 0x04000000
      | USBFS_DOEPCTL_STALL \<Rightarrow> 0x00200000
      | USBFS_DOEPCTL_SNAK \<Rightarrow> 0x08000000
      | USBFS_DOEPCTL_EPTYPE_CONTROL \<Rightarrow> 0
      | USBFS_DOEP0CTL_MPL_64B \<Rightarrow> 0
      | USBFS_DOEPINTF_BTBSTP \<Rightarrow> 0x40
      | USBFS_DOEPINTF_EPRXFOVR \<Rightarrow> 0x10
      | USBFS_DOEPINTF_STPF \<Rightarrow> 0x08
      | USBFS_DOEPINTF_EPDIS \<Rightarrow> 0x02
      | USBFS_DOEPINTF_TF \<Rightarrow> 0x01
      | USBFS_GRSTCTL_TXFNUM x \<Rightarrow> push_bit 6 x
      | USBFS_GRSTCTL_TXFF \<Rightarrow> 0x20
      | USBFS_DCFG_DAR_Msk \<Rightarrow> 0x7F0
      | USBFS_DCFG_DAR x \<Rightarrow> push_bit 4 x
      | USBFS_DAEPINTEN_OEPIE x \<Rightarrow> push_bit 16 x
      | USBFS_DAEPINTEN_IEPIE x \<Rightarrow> x
      | USBFS_DOEPINTEN_STPFEN \<Rightarrow> 0x08
      | USBFS_DOEPINTEN_TFEN \<Rightarrow> 0x01
      | USBFS_DIEPINTEN_TFEN \<Rightarrow> 0x01
      | USBFS_DCTL_CGINAK \<Rightarrow> 0x100
      | USBFS_DSTAT_ES_Msk \<Rightarrow> 0x06
      | USBFS_DSTAT_ES_FULL \<Rightarrow> 0x06
      | USBFS_GRSTAT_EPNUM_Msk \<Rightarrow> 0x0F
      | USBFS_GRSTAT_BCOUNT_Msk \<Rightarrow> 0x7FF0
      | USBFS_GRSTAT_BCOUNT_Pos \<Rightarrow> 4
      | USBFS_GRSTAT_RPCKST_Msk \<Rightarrow> 0x1E0000
      | USBFS_GRSTAT_RPCKST_STP \<Rightarrow> 0x0C0000
      | USBFS_GINTF_RXFNEIF \<Rightarrow> 0x10
      | USBFS_GINTF_OEPIF \<Rightarrow> 0x80000
      | USBFS_GINTF_IEPIF \<Rightarrow> 0x40000
      | USBFS_GINTF_SP \<Rightarrow> 0x800
      | USBFS_GINTF_WKUPIF \<Rightarrow> 0x80000000
      | USBFS_GINTF_RST \<Rightarrow> 0x1000
      | USBFS_GINTF_ENUMF \<Rightarrow> 0x2000
      | DBG_KEY_UNLOCK \<Rightarrow> 0x4B5A6978
      | DBG_CMD_RESET \<Rightarrow> 0x01)"

definition reads_of :: "reg \<Rightarrow> event list \<Rightarrow> nat" where
  "reads_of r t = length (filter (\<lambda>e. case e of Rd r' v \<Rightarrow> r' = r | _ \<Rightarrow> False) t)"

definition hw_script :: "(reg \<times> u32 list) list \<Rightarrow> event list \<Rightarrow> reg \<Rightarrow> u32" where
  "hw_script sc t r =
     (case map_of sc r of
        None \<Rightarrow> 0
      | Some vs \<Rightarrow> if reads_of r t < length vs then vs ! reads_of r t else 0)"

text \<open>A sample controller that reports a completed IN transfer, and nothing else, at
  every read of the endpoint flags.\<close>

definition hw_in_tf :: "event list \<Rightarrow> reg \<Rightarrow> u32" where
  "hw_in_tf t r = (if r = DIEP_INTF 0 then 1 else 0)"

definition dfu_count :: "int \<Rightarrow> u8 list \<Rightarrow> nat dfu_fn" where
  "dfu_count r d p data x rb = (r, if r > 0 then d else data, Suc x, rb)"

text \<open>Some bytes to send.\<close>

definition sample_bytes :: "nat \<Rightarrow> u8 list" where
  "sample_bytes n = replicate n 0x55"

definition E0 :: "nat env" where
  "E0 = \<lparr>K = K0, hw = hw_script [], DFU_INTERFACE = 0, DFU_TRANSFERSIZE = 64,
          dfu_detach = dfu_count 0 [], dfu_dnload = dfu_count 0 [],
          dfu_upload = dfu_count 64 (replicate 64 0xAA),
          dfu_getstatus = dfu_count 6 [0, 0, 0, 0, 2, 0],
          dfu_clrstatus = dfu_count 0 [], dfu_getstate = dfu_count 1 [2],
          dfu_abort = dfu_count 0 []\<rparr>"

definition s0 :: "nat driver" where
  "s0 = \<lparr>ep0out = 2, ep0in = [], bytes = 0, usbfs_outbuf_v = (0, 0),
          usbfs_outbuf_data = replicate 16 0, usbfs_status = 0,
          usbfs_reboot_on_ack = False, oob = False, io = [], ext = 0\<rparr>"

text \<open>The two words of the union for a setup packet given by its fields.\<close>

definition setup_words :: "u8 \<Rightarrow> u8 \<Rightarrow> u16 \<Rightarrow> u16 \<Rightarrow> u16 \<Rightarrow> u32 \<times> u32" where
  "setup_words rt rq v i l =
     (ucast rt OR push_bit 8 (ucast rq) OR push_bit 16 (ucast v), ucast i OR push_bit 16 (ucast l))"

text \<open>A sample interrupt: the FIFO holds a SETUP packet (SET_ADDRESS 7) and the entry
  that ends the SETUP stage, then endpoint 0 reports SETUP and transfer complete.\<close>

definition E_setup_irq :: "nat env" where
  "E_setup_irq = E0\<lparr>hw := hw_script
     [(GINTF, [0x10, 0x10, 0x80000]), (GRSTATP, [0x0C0080, 0x080000]),
      (DFIFO, [0x00070500, 0]), (DAEPINT, [0x10000]), (DOEP_INTF 0, [0x09])]\<rparr>"

text \<open>A sample OUT data stage of 70 bytes, two packets: a controller answering from a
  script, a receive buffer of 128 bytes, and the setup packet of a DFU download
  (0x21, 1, 0, 0, 70) in the union.\<close>

definition E_out :: "(reg \<times> u32 list) list \<Rightarrow> nat env" where
  "E_out sc = E0\<lparr>hw := hw_script sc, DFU_TRANSFERSIZE := 128\<rparr>"

definition s_out :: "nat driver" where
  "s_out = s0\<lparr>usbfs_outbuf_v := setup_words 0x21 1 0 0 70, usbfs_outbuf_data := replicate 32 0\<rparr>"

section \<open>Properties\<close>

subsection \<open>Auxiliary facts\<close>

lemma usbfs_descriptor_device_length: "length usbfs_descriptor_device = 18"
  by (simp add: usbfs_descriptor_device_def usb_word_def)

paragraph \<open>Register accesses and the endpoint primitives as trace extensions\<close>

lemma reg_read_eq: "reg_read E r s = (hw E (io s) r, s\<lparr>io := io s @ [Rd r (hw E (io s) r)]\<rparr>)"
  by (simp add: reg_read_def Let_def)

lemma reg_set_eq:
  "reg_set E r m s = s\<lparr>io := io s @ [Rd r (hw E (io s) r), Wr r (hw E (io s) r OR m)]\<rparr>"
  by (simp add: reg_set_def reg_read_eq reg_write_def)


lemma fold_reg_write: "fold (reg_write r) ws s = s\<lparr>io := io s @ map (Wr r) ws\<rparr>"
  by (induction ws arbitrary: s) (simp_all add: reg_write_def)

lemma ep0in_transfer_eq:
  "usbfs_ep0in_transfer E s =
     s\<lparr>oob := oob s \<or> length (ep0in s) < unat (if bytes s > 64 then 64 else bytes s),
       io := io s @ [Wr (DIEP_LEN 0) (K E (USBFS_DIEPLEN_PCNT 1) OR (if bytes s > 64 then 64 else bytes s)),
                     Rd (DIEP_CTL 0) (hw E (io s @ [Wr (DIEP_LEN 0) (K E (USBFS_DIEPLEN_PCNT 1) OR (if bytes s > 64 then 64 else bytes s))]) (DIEP_CTL 0)),
                     Wr (DIEP_CTL 0) (hw E (io s @ [Wr (DIEP_LEN 0) (K E (USBFS_DIEPLEN_PCNT 1) OR (if bytes s > 64 then 64 else bytes s))]) (DIEP_CTL 0)
                         OR (K E USBFS_DIEPCTL_EPEN OR K E USBFS_DIEPCTL_CNAK))]
              @ map (Wr DFIFO) (ep0in_words (take (unat (if bytes s > 64 then 64 else bytes s)) (ep0in s)))\<rparr>"
  by (simp add: usbfs_ep0in_transfer_def Let_def fold_reg_write reg_write_def reg_set_eq)

lemma ep0in_transfer_frame [simp]:
  "bytes (usbfs_ep0in_transfer E s) = bytes s"
  "ep0in (usbfs_ep0in_transfer E s) = ep0in s"
  "ep0out (usbfs_ep0in_transfer E s) = ep0out s"
  "usbfs_outbuf_v (usbfs_ep0in_transfer E s) = usbfs_outbuf_v s"
  "usbfs_outbuf_data (usbfs_ep0in_transfer E s) = usbfs_outbuf_data s"
  "usbfs_status (usbfs_ep0in_transfer E s) = usbfs_status s"
  "usbfs_reboot_on_ack (usbfs_ep0in_transfer E s) = usbfs_reboot_on_ack s"
  "ext (usbfs_ep0in_transfer E s) = ext s"
  by (simp_all add: ep0in_transfer_eq)

lemma prepare_out_frame [simp]:
  "bytes (usbfs_ep0out_prepare_out E s) = bytes s"
  "ep0in (usbfs_ep0out_prepare_out E s) = ep0in s"
  "ep0out (usbfs_ep0out_prepare_out E s) = ep0out s"
  "usbfs_outbuf_v (usbfs_ep0out_prepare_out E s) = usbfs_outbuf_v s"
  "usbfs_outbuf_data (usbfs_ep0out_prepare_out E s) = usbfs_outbuf_data s"
  "usbfs_status (usbfs_ep0out_prepare_out E s) = usbfs_status s"
  "usbfs_reboot_on_ack (usbfs_ep0out_prepare_out E s) = usbfs_reboot_on_ack s"
  "oob (usbfs_ep0out_prepare_out E s) = oob s"
  "ext (usbfs_ep0out_prepare_out E s) = ext s"
  by (simp_all add: usbfs_ep0out_prepare_out_def reg_write_def reg_set_eq)

lemma prepare_setup_frame [simp]:
  "bytes (usbfs_ep0out_prepare_setup E s) = bytes s"
  "ep0in (usbfs_ep0out_prepare_setup E s) = ep0in s"
  "ep0out (usbfs_ep0out_prepare_setup E s) = ep0out s"
  "usbfs_outbuf_v (usbfs_ep0out_prepare_setup E s) = usbfs_outbuf_v s"
  "usbfs_outbuf_data (usbfs_ep0out_prepare_setup E s) = usbfs_outbuf_data s"
  "usbfs_status (usbfs_ep0out_prepare_setup E s) = usbfs_status s"
  "usbfs_reboot_on_ack (usbfs_ep0out_prepare_setup E s) = usbfs_reboot_on_ack s"
  "oob (usbfs_ep0out_prepare_setup E s) = oob s"
  "ext (usbfs_ep0out_prepare_setup E s) = ext s"
  by (simp_all add: usbfs_ep0out_prepare_setup_def reg_write_def reg_set_eq)

lemma stall_frame [simp]:
  "bytes (usbfs_ep0in_stall E s) = bytes s"
  "ep0in (usbfs_ep0in_stall E s) = ep0in s"
  "ep0out (usbfs_ep0in_stall E s) = ep0out s"
  "usbfs_outbuf_v (usbfs_ep0in_stall E s) = usbfs_outbuf_v s"
  "usbfs_outbuf_data (usbfs_ep0in_stall E s) = usbfs_outbuf_data s"
  "usbfs_status (usbfs_ep0in_stall E s) = usbfs_status s"
  "usbfs_reboot_on_ack (usbfs_ep0in_stall E s) = usbfs_reboot_on_ack s"
  "oob (usbfs_ep0in_stall E s) = oob s"
  "ext (usbfs_ep0in_stall E s) = ext s"
  by (simp_all add: usbfs_ep0in_stall_def reg_write_def reg_set_eq)

paragraph \<open>Setup packets and the sample inputs\<close>

lemma outbuf_setup_bytes [simp]: "usbfs_outbuf_setup (s\<lparr>bytes := b\<rparr>) = usbfs_outbuf_setup s"
  by (simp add: usbfs_outbuf_setup_def)

lemma usbfs_setup_handler_run_get_descriptor:
  assumes "p = \<lparr>bmRequestType = 0x80, bRequest = 0x06, wValue = 0x0100, wIndex = 0, wLength = 64\<rparr>"
  shows "usbfs_setup_handler_run E p data s = usbfs_handle_get_descriptor E p data s"
    and "usbfs_handle_get_descriptor E p data s = (18, usbfs_descriptor_device, s)"
  using assms
  by (simp_all add: usbfs_setup_handler_run_def usbfs_setup_handlers_def request_def
      usbfs_handle_get_descriptor_def usbfs_handle_get_descriptor_device_def
      usbfs_descriptor_device_length)

lemma setup_words_fields:
  "ucast (fst (setup_words rt rq v i l)) = rt"
  "ucast (drop_bit 8 (fst (setup_words rt rq v i l))) = rq"
  "ucast (drop_bit 16 (fst (setup_words rt rq v i l))) = v"
  "ucast (snd (setup_words rt rq v i l)) = i"
  "ucast (drop_bit 16 (snd (setup_words rt rq v i l))) = l"
  unfolding setup_words_def fst_conv snd_conv
  by (rule bit_word_eqI; auto simp add: bit_simps dest: bit_imp_le_length)+

lemma usbfs_outbuf_setup_words:
  "usbfs_outbuf_setup (s\<lparr>usbfs_outbuf_v := setup_words rt rq v i l\<rparr>) =
     \<lparr>bmRequestType = rt, bRequest = rq, wValue = v, wIndex = i, wLength = l\<rparr>"
  by (simp add: usbfs_outbuf_setup_def split_beta setup_words_fields)

lemma s0_fields [simp]:
  "ep0out s0 = 2" "ep0in s0 = []" "bytes s0 = 0" "usbfs_outbuf_v s0 = (0, 0)"
  "usbfs_outbuf_data s0 = replicate 16 0" "usbfs_status s0 = 0"
  "usbfs_reboot_on_ack s0 = False" "oob s0 = False" "io s0 = []" "ext s0 = 0"
  by (simp_all add: s0_def)

lemma E0_fields [simp]:
  "K E0 = K0" "hw E0 = hw_script []" "DFU_INTERFACE E0 = 0" "DFU_TRANSFERSIZE E0 = 64"
  "dfu_detach E0 = dfu_count 0 []" "dfu_dnload E0 = dfu_count 0 []"
  "dfu_upload E0 = dfu_count 64 (replicate 64 0xAA)"
  "dfu_getstatus E0 = dfu_count 6 [0, 0, 0, 0, 2, 0]"
  "dfu_clrstatus E0 = dfu_count 0 []" "dfu_getstate E0 = dfu_count 1 [2]"
  "dfu_abort E0 = dfu_count 0 []"
  by (simp_all add: E0_def)

lemma reads_of_simps [simp]:
  "reads_of r [] = 0"
  "reads_of r (Rd r' v # t) = (if r' = r then Suc (reads_of r t) else reads_of r t)"
  "reads_of r (Wr r' v # t) = reads_of r t"
  "reads_of r (Udelay n # t) = reads_of r t"
  by (simp_all add: reads_of_def)

lemma usbfs_irq_rxloop_done:
  "flags AND K E USBFS_GINTF_RXFNEIF = 0 \<Longrightarrow> usbfs_irq_rxloop E flags s = Some (flags, s)"
  by (subst usbfs_irq_rxloop.simps) simp

paragraph \<open>The discard loop of the FIFO reader\<close>

declare rxdata_discard.simps [simp del]

lemma rxdata_discard_io:
  "\<exists>ws. length ws = (n - 5) div 4 \<and>
        rxdata_discard E n s = s\<lparr>io := io s @ map (Rd DFIFO) ws\<rparr>"
proof (induction E n s rule: rxdata_discard.induct)
  case (1 E n s)
  show ?case
  proof (cases "n > 8")
    case True
    let ?v = "hw E (io s) DFIFO"
    let ?s1 = "snd (reg_read E DFIFO s)"
    obtain ws where ws: "length ws = (n - 4 - 5) div 4"
      "rxdata_discard E (n - 4) ?s1 = ?s1\<lparr>io := io ?s1 @ map (Rd DFIFO) ws\<rparr>"
      using 1 True by blast
    have "rxdata_discard E n s = s\<lparr>io := io s @ map (Rd DFIFO) (?v # ws)\<rparr>"
      using ws(2) by (subst rxdata_discard.simps) (simp add: True reg_read_eq)
    moreover have "length (?v # ws) = (n - 5) div 4"
      using True ws(1) by simp
    ultimately show ?thesis by blast
  next
    case False
    then have "rxdata_discard E n s = s\<lparr>io := io s @ map (Rd DFIFO) []\<rparr>"
      by (subst rxdata_discard.simps) simp
    moreover have "length ([] :: u32 list) = (n - 5) div 4"
      using False by simp
    ultimately show ?thesis by blast
  qed
qed

paragraph \<open>Tables without a repeated code\<close>

lemma spec_resolve_no_code:
  "request p \<notin> req ` set hs \<Longrightarrow> spec_resolve hs p data s = (-1, data, s)"
  by (induction hs) auto

lemma usbfs_setup_handler_scan_no_code:
  "request p \<notin> req ` set hs \<Longrightarrow> usbfs_setup_handler_scan hs p data s = (-1, data, s)"
  by (induction hs) auto

lemma usbfs_setup_handler_scan_distinct:
  "distinct (map req hs) \<Longrightarrow>
   usbfs_setup_handler_scan hs p data s = spec_resolve hs p data s"
proof (induction hs)
  case Nil
  then show ?case by simp
next
  case (Cons h hs)
  show ?case
  proof (cases "req h = request p")
    case True
    then have "request p \<notin> req ` set hs"
      using Cons.prems by auto
    then have "spec_resolve hs p data s = (-1, data, s)"
      and "usbfs_setup_handler_scan hs p data s = (-1, data, s)"
      by (simp_all add: spec_resolve_no_code usbfs_setup_handler_scan_no_code)
    then show ?thesis
      using True by auto
  next
    case False
    then show ?thesis
      using Cons by simp
  qed
qed

lemma usbfs_setup_handlers_distinct: "distinct (map req (usbfs_setup_handlers E))"
  by (simp add: usbfs_setup_handlers_def)

paragraph \<open>What every handler of the table leaves alone\<close>



lemma usbfs_outbuf_setup_update [simp]:
  "usbfs_outbuf_setup (s\<lparr>ep0out := a\<rparr>) = usbfs_outbuf_setup s"
  "usbfs_outbuf_setup (s\<lparr>ep0in := b\<rparr>) = usbfs_outbuf_setup s"
  "usbfs_outbuf_setup (s\<lparr>usbfs_outbuf_data := c\<rparr>) = usbfs_outbuf_setup s"
  "usbfs_outbuf_setup (s\<lparr>usbfs_status := d\<rparr>) = usbfs_outbuf_setup s"
  "usbfs_outbuf_setup (s\<lparr>usbfs_reboot_on_ack := e\<rparr>) = usbfs_outbuf_setup s"
  "usbfs_outbuf_setup (s\<lparr>oob := f\<rparr>) = usbfs_outbuf_setup s"
  "usbfs_outbuf_setup (s\<lparr>io := g\<rparr>) = usbfs_outbuf_setup s"
  "usbfs_outbuf_setup (s\<lparr>ext := h\<rparr>) = usbfs_outbuf_setup s"
  by (simp_all add: usbfs_outbuf_setup_def)


paragraph \<open>IN transfer-complete events\<close>

lemma diep0_len_writes_simps [simp]:
  "diep0_len_writes [] = []"
  "diep0_len_writes (a @ b) = diep0_len_writes a @ diep0_len_writes b"
  "diep0_len_writes (Wr r v # t) = (if r = DIEP_LEN 0 then v # diep0_len_writes t else diep0_len_writes t)"
  "diep0_len_writes (Rd r v # t) = diep0_len_writes t"
  "diep0_len_writes (Udelay n # t) = diep0_len_writes t"
  "diep0_len_writes (map (Wr DFIFO) ws) = []"
  by (simp_all add: diep0_len_writes_def)

lemma word64_le: "(b :: u32) \<le> 64 \<longleftrightarrow> unat b \<le> 64"
  by (simp add: word_le_nat_alt)

lemma word64_sub: "(64 :: u32) < b \<Longrightarrow> unat (b - 64) = unat b - 64"
  by (simp add: unat_sub word_less_nat_alt word_le_nat_alt)

lemma usbfs_handle_ep0_in_more:
  assumes "hw E (io s) (DOEP_INTF 0) AND K E USBFS_DOEPINTF_STPF = 0"
    and "hw E (io s @ [Rd (DOEP_INTF 0) (hw E (io s) (DOEP_INTF 0))]) (DIEP_INTF 0) AND
           K E USBFS_DIEPINTF_TF \<noteq> 0"
    and "64 < bytes s"
  shows "\<exists>ack. diep0_len_writes ack = [] \<and>
           usbfs_handle_ep0 E s =
             Continue (usbfs_ep0in_transfer E
               (s\<lparr>io := io s @ ack, ep0in := drop 64 (ep0in s), bytes := bytes s - 64\<rparr>))"
proof -
  have nz: "bytes s \<noteq> 0" using assms(3) by auto
  let ?o = "hw E (io s) (DOEP_INTF 0)"
  let ?i = "hw E (io s @ [Rd (DOEP_INTF 0) ?o]) (DIEP_INTF 0)"
  let ?ack = "[Rd (DOEP_INTF 0) ?o, Rd (DIEP_INTF 0) ?i, Wr (DOEP_INTF 0) ?o, Wr (DIEP_INTF 0) ?i]"
  have "usbfs_handle_ep0 E s =
      Continue (usbfs_ep0in_transfer E
               (s\<lparr>io := io s @ ?ack, ep0in := drop 64 (ep0in s), bytes := bytes s - 64\<rparr>))"
    using assms nz by (simp add: usbfs_handle_ep0_def reg_read_eq reg_write_def Let_def)
  moreover have "diep0_len_writes ?ack = []" by simp
  ultimately show ?thesis by blast
qed

lemma usbfs_handle_ep0_in_last:
  assumes "hw E (io s) (DOEP_INTF 0) AND K E USBFS_DOEPINTF_STPF = 0"
    and "hw E (io s @ [Rd (DOEP_INTF 0) (hw E (io s) (DOEP_INTF 0))]) (DIEP_INTF 0) AND
           K E USBFS_DIEPINTF_TF \<noteq> 0"
    and "bytes s \<noteq> 0" and "bytes s \<le> 64"
  shows "\<exists>ack. diep0_len_writes ack = [] \<and>
           usbfs_handle_ep0 E s = Continue (s\<lparr>io := io s @ ack, bytes := 0\<rparr>)"
proof -
  let ?o = "hw E (io s) (DOEP_INTF 0)"
  let ?i = "hw E (io s @ [Rd (DOEP_INTF 0) ?o]) (DIEP_INTF 0)"
  let ?ack = "[Rd (DOEP_INTF 0) ?o, Rd (DIEP_INTF 0) ?i, Wr (DOEP_INTF 0) ?o, Wr (DIEP_INTF 0) ?i]"
  have "\<not> 64 < bytes s" using assms(4) by simp
  then have "usbfs_handle_ep0 E s = Continue (s\<lparr>io := io s @ ?ack, bytes := 0\<rparr>)"
    using assms by (simp add: usbfs_handle_ep0_def reg_read_eq reg_write_def Let_def)
  moreover have "diep0_len_writes ?ack = []" by simp
  ultimately show ?thesis by blast
qed

lemma usbfs_handle_ep0_idle:
  assumes "hw E (io s) (DOEP_INTF 0) AND K E USBFS_DOEPINTF_STPF = 0"
    and "bytes s = 0"
  shows "\<exists>ack. diep0_len_writes ack = [] \<and>
           (usbfs_handle_ep0 E s = Continue (s\<lparr>io := io s @ ack\<rparr>) \<or>
            usbfs_handle_ep0 E s = SystemReset (s\<lparr>io := io s @ ack\<rparr>))"
proof -
  let ?o = "hw E (io s) (DOEP_INTF 0)"
  let ?i = "hw E (io s @ [Rd (DOEP_INTF 0) ?o]) (DIEP_INTF 0)"
  let ?ack = "[Rd (DOEP_INTF 0) ?o, Rd (DIEP_INTF 0) ?i, Wr (DOEP_INTF 0) ?o, Wr (DIEP_INTF 0) ?i]"
  let ?rst = "?ack @ [Wr DBG_KEY (K E DBG_KEY_UNLOCK), Wr DBG_CMD (K E DBG_CMD_RESET)]"
  show ?thesis
  proof (cases "usbfs_reboot_on_ack s")
    case True
    then have "usbfs_handle_ep0 E s = SystemReset (s\<lparr>io := io s @ ?rst\<rparr>)"
      using assms by (simp add: usbfs_handle_ep0_def reg_read_eq reg_write_def Let_def)
    moreover have "diep0_len_writes ?rst = []" by simp
    ultimately show ?thesis by blast
  next
    case False
    then have "usbfs_handle_ep0 E s = Continue (s\<lparr>io := io s @ ?ack\<rparr>)"
      using assms by (simp add: usbfs_handle_ep0_def reg_read_eq reg_write_def Let_def)
    moreover have "diep0_len_writes ?ack = []" by simp
    ultimately show ?thesis by blast
  qed
qed

lemma usbfs_ep0_events_idle:
  assumes "\<And>t. hw E t (DOEP_INTF 0) AND K E USBFS_DOEPINTF_STPF = 0"
    and "bytes s = 0"
  shows "diep0_len_writes (io (outcome_state (usbfs_ep0_events E j s))) = diep0_len_writes (io s)"
  using assms(2)
proof (induction j arbitrary: s)
  case 0
  then show ?case by simp
next
  case (Suc j)
  obtain ack where ack: "diep0_len_writes ack = []"
    "usbfs_handle_ep0 E s = Continue (s\<lparr>io := io s @ ack\<rparr>) \<or>
     usbfs_handle_ep0 E s = SystemReset (s\<lparr>io := io s @ ack\<rparr>)"
    using usbfs_handle_ep0_idle [OF assms(1) Suc.prems] by blast
  from ack(2) show ?case
  proof
    assume c: "usbfs_handle_ep0 E s = Continue (s\<lparr>io := io s @ ack\<rparr>)"
    have "diep0_len_writes (io (outcome_state (usbfs_ep0_events E j (s\<lparr>io := io s @ ack\<rparr>)))) =
        diep0_len_writes (io (s\<lparr>io := io s @ ack\<rparr>))"
      by (rule Suc.IH) (simp add: Suc.prems)
    then show ?thesis by (simp add: c ack(1))
  next
    assume "usbfs_handle_ep0 E s = SystemReset (s\<lparr>io := io s @ ack\<rparr>)"
    then show ?thesis by (simp add: ack(1))
  qed
qed

lemma usbfs_ep0in_transfer_len:
  "diep0_len_writes (io (usbfs_ep0in_transfer E s)) =
     diep0_len_writes (io s) @
       [K E (USBFS_DIEPLEN_PCNT 1) OR (if 64 < bytes s then 64 else bytes s)]"
  by (simp add: ep0in_transfer_eq)

lemma usbfs_ep0out_prepare_out_len:
  "diep0_len_writes (io (usbfs_ep0out_prepare_out E s)) = diep0_len_writes (io s)"
  by (simp add: usbfs_ep0out_prepare_out_def reg_set_eq reg_write_def)

lemma usbfs_ep0_events_in:
  assumes "\<And>t. hw E t (DOEP_INTF 0) AND K E USBFS_DOEPINTF_STPF = 0"
    and "\<And>t. hw E t (DIEP_INTF 0) AND K E USBFS_DIEPINTF_TF \<noteq> 0"
    and "bytes u \<noteq> 0"
    and "(unat (bytes u) - 1) div 64 = q"
  shows "\<exists>s'. usbfs_ep0_events E (Suc q) u = Continue s' \<and> bytes s' = 0 \<and>
           diep0_len_writes (io s') =
             diep0_len_writes (io u) @
               (if q = 0 then []
                else replicate (q - 1) (K E (USBFS_DIEPLEN_PCNT 1) OR 64) @
                     [K E (USBFS_DIEPLEN_PCNT 1) OR (bytes u - 64 * of_nat q)])"
  using assms(3,4)
proof (induction q arbitrary: u)
  case 0
  have pos: "0 < unat (bytes u)"
    using 0(1) by (simp add: unat_gt_0)
  then have "unat (bytes u) \<le> 64"
    using 0(2) by simp
  then have le: "bytes u \<le> 64"
    by (simp add: word64_le)
  obtain ack where ack: "diep0_len_writes ack = []"
    "usbfs_handle_ep0 E u = Continue (u\<lparr>io := io u @ ack, bytes := 0\<rparr>)"
    using usbfs_handle_ep0_in_last [OF assms(1) assms(2) 0(1) le] by blast
  show ?case
    by (simp add: ack)
next
  case (Suc q)
  have big: "64 < unat (bytes u)"
    using Suc.prems(2) by (cases "unat (bytes u) \<le> 64") auto
  then have gt: "64 < bytes u"
    by (simp add: word_less_nat_alt)
  obtain ack where ack: "diep0_len_writes ack = []"
    "usbfs_handle_ep0 E u =
       Continue (usbfs_ep0in_transfer E
         (u\<lparr>io := io u @ ack, ep0in := drop 64 (ep0in u), bytes := bytes u - 64\<rparr>))"
    using usbfs_handle_ep0_in_more [OF assms(1) assms(2) gt] by blast
  let ?u2 = "u\<lparr>io := io u @ ack, ep0in := drop 64 (ep0in u), bytes := bytes u - 64\<rparr>"
  let ?u3 = "usbfs_ep0in_transfer E ?u2"
  have un: "unat (bytes u - 64) = unat (bytes u) - 64"
    by (rule word64_sub [OF gt])
  have b3: "bytes ?u3 = bytes u - 64" by simp
  have nz: "bytes ?u3 \<noteq> 0"
    using un big by (auto simp add: b3)
  have q3: "(unat (bytes ?u3) - 1) div 64 = q"
    using Suc.prems(2) big by (simp add: b3 un)
  obtain s' where s': "usbfs_ep0_events E (Suc q) ?u3 = Continue s'" "bytes s' = 0"
    "diep0_len_writes (io s') =
       diep0_len_writes (io ?u3) @
         (if q = 0 then []
          else replicate (q - 1) (K E (USBFS_DIEPLEN_PCNT 1) OR 64) @
               [K E (USBFS_DIEPLEN_PCNT 1) OR (bytes ?u3 - 64 * of_nat q)])"
    using Suc.IH [OF nz q3] by blast
  have l3: "diep0_len_writes (io ?u3) =
      diep0_len_writes (io u) @
        [K E (USBFS_DIEPLEN_PCNT 1) OR (if 64 < bytes u - 64 then 64 else bytes u - 64)]"
    by (simp add: usbfs_ep0in_transfer_len ack(1))
  have ev: "usbfs_ep0_events E (Suc (Suc q)) u = Continue s'"
    using s'(1) by (simp add: ack(2))
  have lens: "diep0_len_writes (io s') =
      diep0_len_writes (io u) @
        replicate q (K E (USBFS_DIEPLEN_PCNT 1) OR 64) @
        [K E (USBFS_DIEPLEN_PCNT 1) OR (bytes u - 64 * of_nat (Suc q))]"
  proof (cases "q = 0")
    case True
    then have "unat (bytes u - 64) \<le> 64"
      using q3 nz by (simp add: b3 unat_gt_0 [symmetric])
    then have "\<not> 64 < bytes u - 64"
      by (simp add: word_less_nat_alt)
    then show ?thesis
      using True s'(3) l3 by simp
  next
    case False
    then have "64 < unat (bytes u - 64)"
      using q3 by (cases "unat (bytes u - 64) \<le> 64") (auto simp add: b3)
    then have g: "64 < bytes u - 64"
      by (simp add: word_less_nat_alt)
    have r: "replicate q (K E (USBFS_DIEPLEN_PCNT 1) OR 64) =
        (K E (USBFS_DIEPLEN_PCNT 1) OR 64) # replicate (q - 1) (K E (USBFS_DIEPLEN_PCNT 1) OR 64)"
      using False by (cases q) simp_all
    have w: "bytes u - 64 - 64 * of_nat q = bytes u - 64 * of_nat (Suc q)"
      by (simp add: algebra_simps)
    show ?thesis
      using False s'(3) l3 g by (simp add: r b3 w)
  qed
  show ?case
    using ev s'(2) lens by simp
qed

lemma last_chunk_arith:
  fixes n :: nat
  assumes "0 < n"
  shows "n - 64 * ((n - 1) div 64) = (if n mod 64 = 0 then 64 else n mod 64)"
proof -
  obtain m where n: "n = Suc m"
    using assms by (cases n) auto
  have "m = 64 * (m div 64) + m mod 64"
    by simp
  then have a: "Suc m - 64 * (m div 64) = Suc (m mod 64)"
    by linarith
  have b: "Suc m mod 64 = (if Suc (m mod 64) = 64 then 0 else Suc (m mod 64))"
    by (rule mod_Suc)
  show ?thesis
    unfolding n using a b by simp
qed

lemma usbfs_ep0_events_add:
  "usbfs_ep0_events E (a + b) s =
     (case usbfs_ep0_events E a s of
        Continue s' \<Rightarrow> usbfs_ep0_events E b s'
      | SystemReset s' \<Rightarrow> SystemReset s')"
  by (induction a arbitrary: s) (simp_all split: outcome.splits)

lemma hw_in_tf_flags:
  "hw (E0\<lparr>hw := hw_in_tf\<rparr>) t (DOEP_INTF 0) AND K (E0\<lparr>hw := hw_in_tf\<rparr>) USBFS_DOEPINTF_STPF = 0"
  "hw (E0\<lparr>hw := hw_in_tf\<rparr>) t (DIEP_INTF 0) AND K (E0\<lparr>hw := hw_in_tf\<rparr>) USBFS_DIEPINTF_TF \<noteq> 0"
  by (simp_all add: hw_in_tf_def K0_def)

paragraph \<open>Trace extensions\<close>

lemma is_rx_read_simps [simp]:
  "is_rx_read (Rd r v) = (r = GINTF \<or> r = GRSTATP \<or> r = DFIFO)"
  "is_rx_read (Wr r v) = False"
  "is_rx_read (Udelay n) = False"
  by (simp_all add: is_rx_read_def)

lemma io_ext_iff: "io_ext P s s' \<longleftrightarrow> (\<exists>evs. io s' = io s @ evs \<and> list_all P evs)"
proof
  assume "io_ext P s s'"
  then have "io s' = io s @ drop (length (io s)) (io s') \<and>
      list_all P (drop (length (io s)) (io s'))"
    unfolding io_ext_def by (metis append_take_drop_id)
  then show "\<exists>evs. io s' = io s @ evs \<and> list_all P evs" by blast
next
  assume "\<exists>evs. io s' = io s @ evs \<and> list_all P evs"
  then show "io_ext P s s'"
    unfolding io_ext_def by auto
qed

lemma io_ext_refl [simp]: "io_ext P s s"
  by (simp add: io_ext_iff)



lemma io_ext_update [simp]:
  "io_ext P s (t\<lparr>ep0out := a\<rparr>) = io_ext P s t"
  "io_ext P s (t\<lparr>ep0in := b\<rparr>) = io_ext P s t"
  "io_ext P s (t\<lparr>bytes := c\<rparr>) = io_ext P s t"
  "io_ext P s (t\<lparr>usbfs_outbuf_v := d\<rparr>) = io_ext P s t"
  "io_ext P s (t\<lparr>usbfs_outbuf_data := e\<rparr>) = io_ext P s t"
  "io_ext P s (t\<lparr>usbfs_status := f\<rparr>) = io_ext P s t"
  "io_ext P s (t\<lparr>usbfs_reboot_on_ack := g\<rparr>) = io_ext P s t"
  "io_ext P s (t\<lparr>oob := h\<rparr>) = io_ext P s t"
  "io_ext P s (t\<lparr>ext := x\<rparr>) = io_ext P s t"
  by (simp_all add: io_ext_def)



paragraph \<open>The endpoint and bus handling never touches the receive path\<close>






















paragraph \<open>The FIFO reader and the drain loop touch nothing else\<close>

declare rxdata_store.simps [simp del]

lemma ep0out_store_io [simp]: "io (ep0out_store v s) = io s"
  by (simp add: ep0out_store_def Let_def)


lemma rx_ep0out_store [simp]: "io_ext P s (ep0out_store v t) = io_ext P s t"
  by (simp add: io_ext_def)





lemma E_setup_irq_fields [simp]:
  "K E_setup_irq = K0" "DFU_INTERFACE E_setup_irq = 0" "DFU_TRANSFERSIZE E_setup_irq = 64"
  "hw E_setup_irq = hw_script
     [(GINTF, [0x10, 0x10, 0x80000]), (GRSTATP, [0x0C0080, 0x080000]),
      (DFIFO, [0x00070500, 0]), (DAEPINT, [0x10000]), (DOEP_INTF 0, [0x09])]"
  by (simp_all add: E_setup_irq_def)


paragraph \<open>The arming primitives as register accesses\<close>




paragraph \<open>The first packet of an IN data stage\<close>

lemma usbfs_descriptor_device_words:
  "ep0in_words usbfs_descriptor_device =
     [0x02000112, 0x40000000, 0x613E1D50, 0x02010200, 0x0103]"
  by (simp add: usbfs_descriptor_device_def usb_word_def)

lemma ep0in_transfer_first_chunk:
  fixes m :: int
  assumes "0 \<le> m" "m < 2 ^ 32"
  shows "usbfs_ep0in_transfer E (t\<lparr>ep0in := d, bytes := word_of_int m\<rparr>) =
     t\<lparr>ep0in := d, bytes := word_of_int m,
       oob := oob t \<or> length d < nat (min m 64),
       io := io t @
         [Wr (DIEP_LEN 0) (K E (USBFS_DIEPLEN_PCNT 1) OR word_of_int (min m 64)),
          Rd (DIEP_CTL 0)
            (hw E (io t @ [Wr (DIEP_LEN 0) (K E (USBFS_DIEPLEN_PCNT 1) OR word_of_int (min m 64))])
               (DIEP_CTL 0)),
          Wr (DIEP_CTL 0)
            (hw E (io t @ [Wr (DIEP_LEN 0) (K E (USBFS_DIEPLEN_PCNT 1) OR word_of_int (min m 64))])
               (DIEP_CTL 0) OR
             (K E USBFS_DIEPCTL_EPEN OR K E USBFS_DIEPCTL_CNAK))] @
         map (Wr DFIFO) (ep0in_words (take (nat (min m 64)) d))\<rparr>"
proof -
  have u: "uint (word_of_int m :: u32) = m"
    using assms by (simp add: uint_word_of_int)
  have lt: "(64 :: u32) < word_of_int m \<longleftrightarrow> 64 < m"
    using u by (simp add: word_less_def)
  have un: "unat (word_of_int m :: u32) = nat m"
    using u by (simp add: unat_eq_nat_uint)
  show ?thesis
  proof (cases "64 < m")
    case True
    then have "min m 64 = 64" by simp
    then show ?thesis
      using True lt by (simp add: ep0in_transfer_eq)
  next
    case False
    then have "min m 64 = m" by simp
    then show ?thesis
      using False lt un by (simp add: ep0in_transfer_eq)
  qed
qed

paragraph \<open>The sample OUT data stage\<close>

lemma E_out_fields [simp]:
  "K (E_out sc) = K0" "hw (E_out sc) = hw_script sc" "DFU_INTERFACE (E_out sc) = 0"
  "DFU_TRANSFERSIZE (E_out sc) = 128" "dfu_dnload (E_out sc) = dfu_count 0 []"
  by (simp_all add: E_out_def)

lemma s_out_fields [simp]:
  "ep0out s_out = 2" "ep0in s_out = []" "bytes s_out = 0"
  "usbfs_outbuf_data s_out = replicate 32 0" "usbfs_status s_out = 0"
  "usbfs_reboot_on_ack s_out = False" "oob s_out = False" "io s_out = []" "ext s_out = 0"
  "usbfs_outbuf_setup s_out =
     \<lparr>bmRequestType = 0x21, bRequest = 1, wValue = 0, wIndex = 0, wLength = 70\<rparr>"
  by (simp_all add: s_out_def usbfs_outbuf_setup_words)

lemma s_out_setup [simp]:
  "usbfs_outbuf_setup (s_out\<lparr>bytes := b\<rparr>) =
     \<lparr>bmRequestType = 0x21, bRequest = 1, wValue = 0, wIndex = 0, wLength = 70\<rparr>"
  "usbfs_outbuf_setup (s_out\<lparr>bytes := b, io := e\<rparr>) =
     \<lparr>bmRequestType = 0x21, bRequest = 1, wValue = 0, wIndex = 0, wLength = 70\<rparr>"
  by simp_all

subsection \<open>C1: a rule whose length does not fit ends the scan\<close>

text \<open>
  Claim C1 says that a rule whose code and interface index match the packet but whose
  fixed length differs from \<open>wLength\<close> is skipped and the scan goes on to the later
  rules. The code leaves the loop there (\<^verbatim>\<open>break\<close>) and returns -1. C1, as amended: the
  result of the scan over any table is decided by the first rule whose code and index
  match the packet: if its length is the wildcard or equals \<open>wLength\<close> its handler runs,
  otherwise the scan ends with -1 and no handler runs; later rules are not looked at.
  On the table of usbfs.c, where no code occurs twice, the result is the one a scan that
  goes on would give.
\<close>

theorem usbfs_setup_handler_scan_first_code_index:
  "usbfs_setup_handler_scan hs p data s =
     (case find (\<lambda>h. req h = request p \<and> (idx h = 0xFF \<or> idx h = ucast (wIndex p))) hs of
        None \<Rightarrow> (-1, data, s)
      | Some h \<Rightarrow>
          if len h \<noteq> 0xFF \<and> ucast (len h) \<noteq> wLength p then (-1, data, s)
          else fn h p data s) \<and>
   usbfs_setup_handler_run E p data s = spec_resolve (usbfs_setup_handlers E) p data s"
proof
  show "usbfs_setup_handler_scan hs p data s =
     (case find (\<lambda>h. req h = request p \<and> (idx h = 0xFF \<or> idx h = ucast (wIndex p))) hs of
        None \<Rightarrow> (-1, data, s)
      | Some h \<Rightarrow>
          if len h \<noteq> 0xFF \<and> ucast (len h) \<noteq> wLength p then (-1, data, s)
          else fn h p data s)"
    by (induction hs) auto
  show "usbfs_setup_handler_run E p data s = spec_resolve (usbfs_setup_handlers E) p data s"
    unfolding usbfs_setup_handler_run_def
    by (rule usbfs_setup_handler_scan_distinct [OF usbfs_setup_handlers_distinct])
qed

theorem usbfs_setup_handler_scan_first_code_index_witness:
  "usbfs_setup_handler_run E0
     \<lparr>bmRequestType = 0, bRequest = 5, wValue = 7, wIndex = 0, wLength = 5\<rparr> [] s0 =
   (-1, [], s0)"
  using usbfs_setup_handler_scan_first_code_index
    [of "usbfs_setup_handlers E0"
        "\<lparr>bmRequestType = 0, bRequest = 5, wValue = 7, wIndex = 0, wLength = 5\<rparr>" "[]" s0]
  by (simp add: usbfs_setup_handler_run_def usbfs_setup_handlers_def request_def)

theorem usbfs_setup_handler_scan_no_continue:
  "fst (usbfs_setup_handler_scan
          [\<lparr>req = 0x0900, idx = 0, len = 0, fn = usbfs_handle_set_configuration\<rparr>,
           \<lparr>req = 0x0900, idx = 0, len = 2, fn = usbfs_handle_set_configuration\<rparr>]
          \<lparr>bmRequestType = 0, bRequest = 9, wValue = 1, wIndex = 0, wLength = 2\<rparr> [] s0) = -1 \<and>
   fst (spec_resolve
          [\<lparr>req = 0x0900, idx = 0, len = 0, fn = usbfs_handle_set_configuration\<rparr>,
           \<lparr>req = 0x0900, idx = 0, len = 2, fn = usbfs_handle_set_configuration\<rparr>]
          \<lparr>bmRequestType = 0, bRequest = 9, wValue = 1, wIndex = 0, wLength = 2\<rparr> [] s0) = 0"
  by (simp add: request_def usbfs_handle_set_configuration_def)

subsection \<open>C2: the packets of an IN data stage\<close>

text \<open>
  Claim C2 says that an IN data stage whose length is a non-zero multiple of 64 ends
  with a zero-length packet. The code has no such packet: when the last chunk has been
  sent the remaining count becomes zero and nothing more is armed. C2, as amended: an IN
  data stage of \<open>n > 0\<close> bytes is armed as \<open>q = (n - 1) div 64\<close> packets of 64 bytes
  followed by one last packet of \<open>n - 64 * q\<close> bytes, which is \<open>n mod 64\<close> when \<open>n\<close> is not
  a multiple of 64 and 64 when it is; after \<open>q + 1\<close> transfer-complete events the
  remaining count is zero, and no further event arms any packet, so no zero-length
  packet follows in either case.
\<close>

theorem usbfs_ep0_in_data_stage:
  assumes "\<And>t. hw E t (DOEP_INTF 0) AND K E USBFS_DOEPINTF_STPF = 0"
    and "\<And>t. hw E t (DIEP_INTF 0) AND K E USBFS_DIEPINTF_TF \<noteq> 0"
    and "bytes s \<noteq> 0"
    and "n = unat (bytes s)"
    and "q = (n - 1) div 64"
  shows "\<exists>s'. usbfs_ep0_events E (Suc q)
                (usbfs_ep0out_prepare_out E (usbfs_ep0in_transfer E s)) = Continue s' \<and>
              bytes s' = 0 \<and>
              diep0_len_writes (io s') =
                diep0_len_writes (io s) @
                  replicate q (K E (USBFS_DIEPLEN_PCNT 1) OR 64) @
                  [K E (USBFS_DIEPLEN_PCNT 1) OR of_nat (n - 64 * q)] \<and>
              (\<forall>j. diep0_len_writes (io (outcome_state (usbfs_ep0_events E j s'))) =
                     diep0_len_writes (io s')) \<and>
              n - 64 * q = (if n mod 64 = 0 then 64 else n mod 64)"
proof -
  let ?P = "K E (USBFS_DIEPLEN_PCNT 1)"
  let ?u = "usbfs_ep0out_prepare_out E (usbfs_ep0in_transfer E s)"
  have bu: "bytes ?u = bytes s" by simp
  have pos: "0 < n"
    using assms(3,4) by (simp add: unat_gt_0)
  have nz: "bytes ?u \<noteq> 0"
    using assms(3) by simp
  have qu: "(unat (bytes ?u) - 1) div 64 = q"
    using assms(4,5) by simp
  obtain s' where s': "usbfs_ep0_events E (Suc q) ?u = Continue s'" "bytes s' = 0"
    "diep0_len_writes (io s') =
       diep0_len_writes (io ?u) @
         (if q = 0 then []
          else replicate (q - 1) (?P OR 64) @ [?P OR (bytes ?u - 64 * of_nat q)])"
    using usbfs_ep0_events_in [OF assms(1) assms(2) nz qu] by blast
  have lu: "diep0_len_writes (io ?u) =
      diep0_len_writes (io s) @ [?P OR (if 64 < bytes s then 64 else bytes s)]"
    by (simp add: usbfs_ep0out_prepare_out_len usbfs_ep0in_transfer_len)
  have le: "64 * q \<le> n"
    using assms(5) pos by simp
  have w: "(of_nat (n - 64 * q) :: u32) = bytes s - 64 * of_nat q"
    using le assms(4) by simp
  have lens: "diep0_len_writes (io s') =
      diep0_len_writes (io s) @ replicate q (?P OR 64) @ [?P OR of_nat (n - 64 * q)]"
  proof (cases "q = 0")
    case True
    then have "n \<le> 64"
      using assms(5) pos by simp
    then have "\<not> 64 < bytes s"
      using assms(4) by (simp add: word_less_nat_alt)
    then show ?thesis
      using True s'(3) lu assms(4) by simp
  next
    case False
    then have "64 < n"
      using assms(5) by (cases "n \<le> 64") auto
    then have g: "64 < bytes s"
      using assms(4) by (simp add: word_less_nat_alt)
    have r: "replicate q (?P OR 64) = (?P OR 64) # replicate (q - 1) (?P OR 64)"
      using False by (cases q) simp_all
    show ?thesis
      using False s'(3) lu g by (simp add: r w)
  qed
  have idle: "\<forall>j. diep0_len_writes (io (outcome_state (usbfs_ep0_events E j s'))) =
      diep0_len_writes (io s')"
    using usbfs_ep0_events_idle [OF assms(1) s'(2)] by simp
  have ar: "n - 64 * q = (if n mod 64 = 0 then 64 else n mod 64)"
    using last_chunk_arith [OF pos] assms(5) by simp
  show ?thesis
    using s'(1,2) lens idle ar by (intro exI [where x = s'] conjI)
qed

theorem usbfs_ep0_in_data_stage_witness:
  "diep0_len_writes (io (outcome_state
     (usbfs_ep0_events (E0\<lparr>hw := hw_in_tf\<rparr>) 3
        (usbfs_ep0out_prepare_out (E0\<lparr>hw := hw_in_tf\<rparr>)
           (usbfs_ep0in_transfer (E0\<lparr>hw := hw_in_tf\<rparr>)
              (s0\<lparr>ep0in := sample_bytes 130, bytes := 130\<rparr>)))))) =
   [0x80040, 0x80040, 0x80002]"
proof -
  let ?E = "E0\<lparr>hw := hw_in_tf\<rparr>"
  let ?s = "s0\<lparr>ep0in := sample_bytes 130, bytes := 130\<rparr>"
  let ?u = "usbfs_ep0out_prepare_out ?E (usbfs_ep0in_transfer ?E ?s)"
  have b: "bytes ?s \<noteq> 0" and n: "130 = unat (bytes ?s)" and q: "2 = ((130 :: nat) - 1) div 64"
    by simp_all
  note th = usbfs_ep0_in_data_stage
    [where E = ?E and s = ?s and n = 130 and q = 2,
      OF hw_in_tf_flags(1) hw_in_tf_flags(2) b n q]
  have three: "Suc 2 = 3" by simp
  from th show ?thesis
    unfolding three
    by (elim exE conjE) (simp add: K0_def numeral_2_eq_2)
qed

theorem usbfs_ep0_in_no_zero_length_packet:
  "bytes (usbfs_handle_setup (E0\<lparr>hw := hw_in_tf\<rparr>)
            (s0\<lparr>usbfs_outbuf_v := setup_words 0xa1 2 0 0 64\<rparr>)) = 64 \<and>
   diep0_len_writes (io (outcome_state
     (usbfs_ep0_events (E0\<lparr>hw := hw_in_tf\<rparr>) 3
        (usbfs_handle_setup (E0\<lparr>hw := hw_in_tf\<rparr>)
           (s0\<lparr>usbfs_outbuf_v := setup_words 0xa1 2 0 0 64\<rparr>))))) = [0x80040]"
proof -
  let ?E = "E0\<lparr>hw := hw_in_tf\<rparr>"
  let ?s = "s0\<lparr>usbfs_outbuf_v := setup_words 0xa1 2 0 0 64\<rparr>"
  let ?s1 = "?s\<lparr>bytes := 0, usbfs_reboot_on_ack := False, ext := Suc 0,
                 ep0in := replicate 64 0xAA, bytes := 64\<rparr>"
  let ?u = "usbfs_ep0out_prepare_out ?E (usbfs_ep0in_transfer ?E ?s1)"
  have hs: "usbfs_handle_setup ?E ?s = ?u"
    by (simp add: usbfs_handle_setup_def usbfs_outbuf_setup_words Let_def
        usbfs_setup_handler_run_def usbfs_setup_handlers_def request_def dfu_call_def
        dfu_count_def)
  have bu: "bytes ?u = 64" by simp
  have lu: "diep0_len_writes (io ?u) = [0x80040]"
    by (simp add: usbfs_ep0out_prepare_out_len usbfs_ep0in_transfer_len K0_def)
  have nz: "bytes ?u \<noteq> 0" and q: "(unat (bytes ?u) - 1) div 64 = 0"
    by (simp_all add: bu)
  obtain s' where s': "usbfs_ep0_events ?E (Suc 0) ?u = Continue s'" "bytes s' = 0"
    "diep0_len_writes (io s') = diep0_len_writes (io ?u) @ []"
    using usbfs_ep0_events_in [where E = ?E and u = ?u and q = 0, OF hw_in_tf_flags nz q]
    by auto
  have three: "(3 :: nat) = Suc 0 + 2"
    by simp
  have e3: "usbfs_ep0_events ?E 3 ?u = usbfs_ep0_events ?E 2 s'"
    by (simp only: three usbfs_ep0_events_add s'(1) outcome.case)
  have "diep0_len_writes (io (outcome_state (usbfs_ep0_events ?E 2 s'))) =
      diep0_len_writes (io s')"
    by (rule usbfs_ep0_events_idle [OF hw_in_tf_flags(1) s'(2)])
  then have "diep0_len_writes (io (outcome_state (usbfs_ep0_events ?E 3 ?u))) = [0x80040]"
    by (simp only: e3 s'(3) lu append_Nil2)
  then show ?thesis
    by (simp only: hs bu)
qed

subsection \<open>C3: OUT data packets and the deferred dispatch\<close>




subsection \<open>C4: an OUT data stage larger than the buffer is refused\<close>

text \<open>
  Claim C4 says that for a host-to-device packet whose length exceeds
  \<^verbatim>\<open>DFU_TRANSFERSIZE\<close> the IN endpoint is stalled, SETUP-only reception is re-armed, and
  neither the transfer state nor the receive buffer is written. The remaining count is
  written: it is set to zero on entry. C4, as amended: \<^verbatim>\<open>usbfs_handle_setup\<close> resets the
  remaining count to zero, stalls IN and re-arms SETUP-only, and nothing else happens:
  the register accesses are exactly those five, OUT is not armed for data, the count is
  zero afterwards, and the cursors, the receive buffer and the DFU module are untouched.
\<close>

theorem usbfs_handle_setup_oversized:
  assumes "bmRequestType (usbfs_outbuf_setup s) AND 0x80 = 0"
    and "DFU_TRANSFERSIZE E < unat (wLength (usbfs_outbuf_setup s))"
  shows "usbfs_handle_setup E s =
           usbfs_ep0out_prepare_setup E (usbfs_ep0in_stall E (s\<lparr>bytes := 0\<rparr>)) \<and>
         bytes (usbfs_handle_setup E s) = 0 \<and>
         ep0in (usbfs_handle_setup E s) = ep0in s \<and>
         ep0out (usbfs_handle_setup E s) = ep0out s \<and>
         usbfs_outbuf_v (usbfs_handle_setup E s) = usbfs_outbuf_v s \<and>
         usbfs_outbuf_data (usbfs_handle_setup E s) = usbfs_outbuf_data s \<and>
         ext (usbfs_handle_setup E s) = ext s \<and>
         (\<exists>a b. io (usbfs_handle_setup E s) =
            io s @ [Rd (DIEP_CTL 0) a, Wr (DIEP_CTL 0) (a OR K E USBFS_DIEPCTL_STALL),
                    Wr (DOEP_LEN 0)
                      (K E (USBFS_DOEPLEN_STPCNT 3) OR K E (USBFS_DOEPLEN_PCNT 0) OR
                       K E (USBFS_DOEPLEN_TLEN 0)),
                    Rd (DOEP_CTL 0) b,
                    Wr (DOEP_CTL 0) (b OR (K E USBFS_DOEPCTL_EPEN OR K E USBFS_DOEPCTL_STALL))])"
proof -
  have eq: "usbfs_handle_setup E s =
      usbfs_ep0out_prepare_setup E (usbfs_ep0in_stall E (s\<lparr>bytes := 0\<rparr>))"
    using assms by (auto simp add: usbfs_handle_setup_def Let_def)
  show ?thesis
    unfolding eq
    by (simp add: usbfs_ep0out_prepare_setup_def usbfs_ep0in_stall_def reg_set_eq reg_write_def)
qed

theorem usbfs_handle_setup_oversized_witness:
  "bytes (usbfs_handle_setup E0 (s0\<lparr>usbfs_outbuf_v := setup_words 0x21 1 0 0 300\<rparr>)) = 0 \<and>
   usbfs_outbuf_data (usbfs_handle_setup E0 (s0\<lparr>usbfs_outbuf_v := setup_words 0x21 1 0 0 300\<rparr>)) =
     usbfs_outbuf_data s0"
  using usbfs_handle_setup_oversized [of "s0\<lparr>usbfs_outbuf_v := setup_words 0x21 1 0 0 300\<rparr>" E0]
  by (simp add: usbfs_outbuf_setup_words)

theorem usbfs_handle_setup_oversized_writes_bytes:
  "bytes (s0\<lparr>usbfs_outbuf_v := setup_words 0x21 1 0 0 300, bytes := 5\<rparr>) = 5 \<and>
   bytes (usbfs_handle_setup E0 (s0\<lparr>usbfs_outbuf_v := setup_words 0x21 1 0 0 300, bytes := 5\<rparr>)) = 0"
  by (simp add: usbfs_handle_setup_def usbfs_outbuf_setup_words Let_def)

subsection \<open>C5: the IN data stage carries min(R, wLength) bytes\<close>

text \<open>
  Claim C5: for a device-to-host packet whose handler returns a length \<open>R \<ge> 0\<close> with
  data pointer \<open>d\<close>, \<^verbatim>\<open>usbfs_handle_setup\<close> arms the IN transfer from \<open>d\<close> with a remaining
  count of exactly \<open>min R wLength\<close>: after the accesses of the handler it writes
  \<^verbatim>\<open>DIEP[0].LEN\<close> with one packet of \<open>min (min R wLength) 64\<close> bytes, enables the IN
  endpoint, pushes that many bytes of \<open>d\<close> into the FIFO, and arms OUT for the status
  stage; nothing else is accessed. The packet (0x80, 0x06, 0x0100, 0, 64) is dispatched
  to the GET_DESCRIPTOR handler, which returns the 18-byte device descriptor, so that a
  packet of 18 bytes, the five words of the descriptor, is armed.
\<close>

theorem usbfs_handle_setup_in_min:
  "(bmRequestType (usbfs_outbuf_setup s) AND 0x80 \<noteq> 0 \<and>
    usbfs_setup_handler_run E (usbfs_outbuf_setup s) [] (s\<lparr>bytes := 0\<rparr>) = (R, d, t) \<and> 0 \<le> R \<longrightarrow>
      usbfs_handle_setup E s =
        usbfs_ep0out_prepare_out E
          (usbfs_ep0in_transfer E
             (t\<lparr>ep0in := d,
                 bytes := word_of_int (min R (uint (wLength (usbfs_outbuf_setup s))))\<rparr>)) \<and>
      uint (bytes (usbfs_handle_setup E s)) = min R (uint (wLength (usbfs_outbuf_setup s))) \<and>
      ep0in (usbfs_handle_setup E s) = d \<and>
      (\<exists>a b. io (usbfs_handle_setup E s) =
         io t @
         [Wr (DIEP_LEN 0)
            (K E (USBFS_DIEPLEN_PCNT 1) OR
             word_of_int (min (min R (uint (wLength (usbfs_outbuf_setup s)))) 64)),
          Rd (DIEP_CTL 0) a,
          Wr (DIEP_CTL 0) (a OR (K E USBFS_DIEPCTL_EPEN OR K E USBFS_DIEPCTL_CNAK))] @
         map (Wr DFIFO)
           (ep0in_words
              (take (nat (min (min R (uint (wLength (usbfs_outbuf_setup s)))) 64)) d)) @
         [Wr (DOEP_LEN 0)
            (K E (USBFS_DOEPLEN_STPCNT 3) OR K E (USBFS_DOEPLEN_PCNT 1) OR
             K E (USBFS_DOEPLEN_TLEN 64)),
          Rd (DOEP_CTL 0) b,
          Wr (DOEP_CTL 0) (b OR (K E USBFS_DOEPCTL_EPEN OR K E USBFS_DOEPCTL_CNAK))])) \<and>
   (usbfs_outbuf_setup s =
      \<lparr>bmRequestType = 0x80, bRequest = 0x06, wValue = 0x0100, wIndex = 0, wLength = 64\<rparr> \<longrightarrow>
      usbfs_setup_handler_run E (usbfs_outbuf_setup s) [] (s\<lparr>bytes := 0\<rparr>) =
        usbfs_handle_get_descriptor E (usbfs_outbuf_setup s) [] (s\<lparr>bytes := 0\<rparr>) \<and>
      usbfs_handle_get_descriptor E (usbfs_outbuf_setup s) [] (s\<lparr>bytes := 0\<rparr>) =
        (18, usbfs_descriptor_device, s\<lparr>bytes := 0\<rparr>) \<and>
      bytes (usbfs_handle_setup E s) = 18 \<and>
      ep0in (usbfs_handle_setup E s) = usbfs_descriptor_device \<and>
      length usbfs_descriptor_device = 18 \<and>
      (\<exists>a b. io (usbfs_handle_setup E s) =
         io s @
         [Wr (DIEP_LEN 0) (K E (USBFS_DIEPLEN_PCNT 1) OR 18),
          Rd (DIEP_CTL 0) a,
          Wr (DIEP_CTL 0) (a OR (K E USBFS_DIEPCTL_EPEN OR K E USBFS_DIEPCTL_CNAK)),
          Wr DFIFO 0x02000112, Wr DFIFO 0x40000000, Wr DFIFO 0x613E1D50,
          Wr DFIFO 0x02010200, Wr DFIFO 0x0103,
          Wr (DOEP_LEN 0)
            (K E (USBFS_DOEPLEN_STPCNT 3) OR K E (USBFS_DOEPLEN_PCNT 1) OR
             K E (USBFS_DOEPLEN_TLEN 64)),
          Rd (DOEP_CTL 0) b,
          Wr (DOEP_CTL 0) (b OR (K E USBFS_DOEPCTL_EPEN OR K E USBFS_DOEPCTL_CNAK))]))"
proof (intro conjI impI)
  assume a: "bmRequestType (usbfs_outbuf_setup s) AND 0x80 \<noteq> 0 \<and>
    usbfs_setup_handler_run E (usbfs_outbuf_setup s) [] (s\<lparr>bytes := 0\<rparr>) = (R, d, t) \<and> 0 \<le> R"
  let ?m = "min R (uint (wLength (usbfs_outbuf_setup s)))"
  show eq: "usbfs_handle_setup E s =
        usbfs_ep0out_prepare_out E
          (usbfs_ep0in_transfer E (t\<lparr>ep0in := d, bytes := word_of_int ?m\<rparr>))"
    using a by (auto simp add: usbfs_handle_setup_def Let_def min_def)
  have m0: "0 \<le> ?m" using a by simp
  have m1: "?m < 2 ^ 32"
  proof -
    have "uint (wLength (usbfs_outbuf_setup s)) < 2 ^ 16"
      using uint_bounded [of "wLength (usbfs_outbuf_setup s)"] by simp
    then show ?thesis by simp
  qed
  have "uint (word_of_int ?m :: u32) = ?m"
    using m0 m1 by (simp add: uint_word_of_int)
  then show "uint (bytes (usbfs_handle_setup E s)) = ?m"
    by (simp add: eq)
  show "ep0in (usbfs_handle_setup E s) = d"
    by (simp add: eq)
  note c = ep0in_transfer_first_chunk [OF m0 m1]
  show "\<exists>a b. io (usbfs_handle_setup E s) =
         io t @
         [Wr (DIEP_LEN 0) (K E (USBFS_DIEPLEN_PCNT 1) OR word_of_int (min ?m 64)),
          Rd (DIEP_CTL 0) a,
          Wr (DIEP_CTL 0) (a OR (K E USBFS_DIEPCTL_EPEN OR K E USBFS_DIEPCTL_CNAK))] @
         map (Wr DFIFO) (ep0in_words (take (nat (min ?m 64)) d)) @
         [Wr (DOEP_LEN 0)
            (K E (USBFS_DOEPLEN_STPCNT 3) OR K E (USBFS_DOEPLEN_PCNT 1) OR
             K E (USBFS_DOEPLEN_TLEN 64)),
          Rd (DOEP_CTL 0) b,
          Wr (DOEP_CTL 0) (b OR (K E USBFS_DOEPCTL_EPEN OR K E USBFS_DOEPCTL_CNAK))]"
    unfolding eq
    by (simp add: usbfs_ep0out_prepare_out_def reg_set_eq reg_write_def c)
next
  assume p: "usbfs_outbuf_setup s =
      \<lparr>bmRequestType = 0x80, bRequest = 0x06, wValue = 0x0100, wIndex = 0, wLength = 64\<rparr>"
  show r1: "usbfs_setup_handler_run E (usbfs_outbuf_setup s) [] (s\<lparr>bytes := 0\<rparr>) =
        usbfs_handle_get_descriptor E (usbfs_outbuf_setup s) [] (s\<lparr>bytes := 0\<rparr>)"
    by (rule usbfs_setup_handler_run_get_descriptor(1) [OF p])
  show r2: "usbfs_handle_get_descriptor E (usbfs_outbuf_setup s) [] (s\<lparr>bytes := 0\<rparr>) =
        (18, usbfs_descriptor_device, s\<lparr>bytes := 0\<rparr>)"
    by (rule usbfs_setup_handler_run_get_descriptor(2) [OF p])
  have eq: "usbfs_handle_setup E s =
      usbfs_ep0out_prepare_out E
        (usbfs_ep0in_transfer E (s\<lparr>bytes := 0, ep0in := usbfs_descriptor_device, bytes := 18\<rparr>))"
    using r1 r2 p by (simp add: usbfs_handle_setup_def Let_def)
  show "bytes (usbfs_handle_setup E s) = 18" by (simp add: eq)
  show "ep0in (usbfs_handle_setup E s) = usbfs_descriptor_device" by (simp add: eq)
  show "length usbfs_descriptor_device = 18" by (rule usbfs_descriptor_device_length)
  show "\<exists>a b. io (usbfs_handle_setup E s) =
         io s @
         [Wr (DIEP_LEN 0) (K E (USBFS_DIEPLEN_PCNT 1) OR 18),
          Rd (DIEP_CTL 0) a,
          Wr (DIEP_CTL 0) (a OR (K E USBFS_DIEPCTL_EPEN OR K E USBFS_DIEPCTL_CNAK)),
          Wr DFIFO 0x02000112, Wr DFIFO 0x40000000, Wr DFIFO 0x613E1D50,
          Wr DFIFO 0x02010200, Wr DFIFO 0x0103,
          Wr (DOEP_LEN 0)
            (K E (USBFS_DOEPLEN_STPCNT 3) OR K E (USBFS_DOEPLEN_PCNT 1) OR
             K E (USBFS_DOEPLEN_TLEN 64)),
          Rd (DOEP_CTL 0) b,
          Wr (DOEP_CTL 0) (b OR (K E USBFS_DOEPCTL_EPEN OR K E USBFS_DOEPCTL_CNAK))]"
    unfolding eq
    by (simp add: usbfs_ep0out_prepare_out_def ep0in_transfer_eq reg_set_eq reg_write_def
        usbfs_descriptor_device_length usbfs_descriptor_device_words)
qed

theorem usbfs_handle_setup_in_min_witness:
  "bytes (usbfs_handle_setup E0 (s0\<lparr>usbfs_outbuf_v := setup_words 0x80 6 0x0100 0 64\<rparr>)) = 18 \<and>
   ep0in (usbfs_handle_setup E0 (s0\<lparr>usbfs_outbuf_v := setup_words 0x80 6 0x0100 0 64\<rparr>)) =
     usbfs_descriptor_device \<and>
   diep0_len_writes
     (io (usbfs_handle_setup E0 (s0\<lparr>usbfs_outbuf_v := setup_words 0x80 6 0x0100 0 64\<rparr>))) =
     [0x80012] \<and>
   length (io (usbfs_handle_setup E0 (s0\<lparr>usbfs_outbuf_v := setup_words 0x80 6 0x0100 0 64\<rparr>))) =
     11 \<and>
   uint (bytes (usbfs_handle_setup E0 (s0\<lparr>usbfs_outbuf_v := setup_words 0x80 6 0x0100 0 8\<rparr>))) = 8 \<and>
   diep0_len_writes
     (io (usbfs_handle_setup E0 (s0\<lparr>usbfs_outbuf_v := setup_words 0x80 6 0x0100 0 8\<rparr>))) =
     [0x80008]"
proof -
  let ?s = "s0\<lparr>usbfs_outbuf_v := setup_words 0x80 6 0x0100 0 64\<rparr>"
  let ?t = "s0\<lparr>usbfs_outbuf_v := setup_words 0x80 6 0x0100 0 8\<rparr>"
  have run: "usbfs_setup_handler_run E0 (usbfs_outbuf_setup ?t) [] (?t\<lparr>bytes := 0\<rparr>) =
      (18, usbfs_descriptor_device, ?t\<lparr>bytes := 0\<rparr>)"
    by (simp add: usbfs_outbuf_setup_words usbfs_setup_handler_run_def usbfs_setup_handlers_def
        request_def usbfs_handle_get_descriptor_def usbfs_handle_get_descriptor_device_def
        usbfs_descriptor_device_length)
  have pt: "bmRequestType (usbfs_outbuf_setup ?t) AND 0x80 \<noteq> 0 \<and>
      usbfs_setup_handler_run E0 (usbfs_outbuf_setup ?t) [] (?t\<lparr>bytes := 0\<rparr>) =
        (18, usbfs_descriptor_device, ?t\<lparr>bytes := 0\<rparr>) \<and> (0::int) \<le> 18"
    using run by (simp add: usbfs_outbuf_setup_words)
  note t = usbfs_handle_setup_in_min
    [where s = ?t and E = E0 and R = 18 and d = usbfs_descriptor_device and t = "?t\<lparr>bytes := 0\<rparr>",
      THEN conjunct1, THEN mp, OF pt]
  have t1: "uint (bytes (usbfs_handle_setup E0 ?t)) = 8"
    using t by (simp add: usbfs_outbuf_setup_words)
  obtain a b where "io (usbfs_handle_setup E0 ?t) =
      [Wr (DIEP_LEN 0) 0x80008, Rd (DIEP_CTL 0) a, Wr (DIEP_CTL 0) (a OR 0x84000000)] @
      map (Wr DFIFO) (ep0in_words (take 8 usbfs_descriptor_device)) @
      [Wr (DOEP_LEN 0) 0x60080040, Rd (DOEP_CTL 0) b, Wr (DOEP_CTL 0) (b OR 0x84000000)]"
    using t by (auto simp add: usbfs_outbuf_setup_words K0_def)
  then have t2: "diep0_len_writes (io (usbfs_handle_setup E0 ?t)) = [0x80008]"
    by (simp add: diep0_len_writes_def)
  have ps: "usbfs_outbuf_setup ?s =
      \<lparr>bmRequestType = 0x80, bRequest = 0x06, wValue = 0x0100, wIndex = 0, wLength = 64\<rparr>"
    by (simp add: usbfs_outbuf_setup_words)
  note u = usbfs_handle_setup_in_min
    [where s = ?s and E = E0, THEN conjunct2, THEN mp, OF ps]
  have u1: "bytes (usbfs_handle_setup E0 ?s) = 18"
    "ep0in (usbfs_handle_setup E0 ?s) = usbfs_descriptor_device"
    using u by simp_all
  obtain a' b' where "io (usbfs_handle_setup E0 ?s) =
      [Wr (DIEP_LEN 0) 0x80012, Rd (DIEP_CTL 0) a', Wr (DIEP_CTL 0) (a' OR 0x84000000),
       Wr DFIFO 0x02000112, Wr DFIFO 0x40000000, Wr DFIFO 0x613E1D50,
       Wr DFIFO 0x02010200, Wr DFIFO 0x0103,
       Wr (DOEP_LEN 0) 0x60080040, Rd (DOEP_CTL 0) b', Wr (DOEP_CTL 0) (b' OR 0x84000000)]"
    using u by (auto simp add: K0_def)
  then have u2: "diep0_len_writes (io (usbfs_handle_setup E0 ?s)) = [0x80012]"
    "length (io (usbfs_handle_setup E0 ?s)) = 11"
    by (simp_all add: diep0_len_writes_def)
  show ?thesis
    using t1 t2 u1 u2 by simp
qed

subsection \<open>C6: the receive FIFO is drained first\<close>



subsection \<open>C7: every SETUP resets the transfer state first\<close>

text \<open>
  Claim C7: in every state, \<^verbatim>\<open>usbfs_handle_setup\<close> behaves as if the remaining count were
  already zero: what it does, the dispatch included, cannot depend on a transfer in
  flight. A host-to-device packet with a data stage runs no handler at all (the DFU
  module's state and the reboot flag stay as they are) and leaves the new transfer's
  count; in the other cases the one dispatch is that of the new packet on the reset
  state.
\<close>

theorem usbfs_handle_setup_resets:
  "usbfs_handle_setup E s = usbfs_handle_setup E (s\<lparr>bytes := 0\<rparr>) \<and>
   (bmRequestType (usbfs_outbuf_setup s) AND 0x80 = 0 \<and> wLength (usbfs_outbuf_setup s) \<noteq> 0 \<longrightarrow>
      ext (usbfs_handle_setup E s) = ext s \<and>
      usbfs_reboot_on_ack (usbfs_handle_setup E s) = usbfs_reboot_on_ack s \<and>
      bytes (usbfs_handle_setup E s) =
        (if unat (wLength (usbfs_outbuf_setup s)) \<le> DFU_TRANSFERSIZE E
         then ucast (wLength (usbfs_outbuf_setup s)) else 0)) \<and>
   (bmRequestType (usbfs_outbuf_setup s) AND 0x80 \<noteq> 0 \<or> wLength (usbfs_outbuf_setup s) = 0 \<longrightarrow>
      ext (usbfs_handle_setup E s) =
        ext (snd (snd (usbfs_setup_handler_run E (usbfs_outbuf_setup s) [] (s\<lparr>bytes := 0\<rparr>)))) \<and>
      usbfs_reboot_on_ack (usbfs_handle_setup E s) =
        usbfs_reboot_on_ack
          (snd (snd (usbfs_setup_handler_run E (usbfs_outbuf_setup s) [] (s\<lparr>bytes := 0\<rparr>)))))"
proof (intro conjI impI)
  show "usbfs_handle_setup E s = usbfs_handle_setup E (s\<lparr>bytes := 0\<rparr>)"
    by (simp add: usbfs_handle_setup_def)
next
  assume a: "bmRequestType (usbfs_outbuf_setup s) AND 0x80 = 0 \<and> wLength (usbfs_outbuf_setup s) \<noteq> 0"
  then show "ext (usbfs_handle_setup E s) = ext s"
    and "usbfs_reboot_on_ack (usbfs_handle_setup E s) = usbfs_reboot_on_ack s"
    and "bytes (usbfs_handle_setup E s) =
        (if unat (wLength (usbfs_outbuf_setup s)) \<le> DFU_TRANSFERSIZE E
         then ucast (wLength (usbfs_outbuf_setup s)) else 0)"
    by (simp_all add: usbfs_handle_setup_def Let_def)
next
  assume a: "bmRequestType (usbfs_outbuf_setup s) AND 0x80 \<noteq> 0 \<or> wLength (usbfs_outbuf_setup s) = 0"
  then show "ext (usbfs_handle_setup E s) =
        ext (snd (snd (usbfs_setup_handler_run E (usbfs_outbuf_setup s) [] (s\<lparr>bytes := 0\<rparr>))))"
    and "usbfs_reboot_on_ack (usbfs_handle_setup E s) =
        usbfs_reboot_on_ack
          (snd (snd (usbfs_setup_handler_run E (usbfs_outbuf_setup s) [] (s\<lparr>bytes := 0\<rparr>))))"
    by (auto simp add: usbfs_handle_setup_def Let_def usbfs_ep0in_transfer_empty_def
        split: prod.splits)
qed

theorem usbfs_handle_setup_resets_witness:
  "bytes (s0\<lparr>usbfs_outbuf_v := setup_words 0x21 1 0 0 8, bytes := 5\<rparr>) = 5 \<and>
   usbfs_handle_setup E0 (s0\<lparr>usbfs_outbuf_v := setup_words 0x21 1 0 0 8, bytes := 5\<rparr>) =
     usbfs_handle_setup E0 (s0\<lparr>usbfs_outbuf_v := setup_words 0x21 1 0 0 8, bytes := 0\<rparr>) \<and>
   ext (usbfs_handle_setup E0 (s0\<lparr>usbfs_outbuf_v := setup_words 0x21 1 0 0 8, bytes := 5\<rparr>)) = 0 \<and>
   bytes (usbfs_handle_setup E0 (s0\<lparr>usbfs_outbuf_v := setup_words 0x21 1 0 0 8, bytes := 5\<rparr>)) = 8"
  using usbfs_handle_setup_resets [of E0 "s0\<lparr>usbfs_outbuf_v := setup_words 0x21 1 0 0 8, bytes := 5\<rparr>"]
  by (auto simp add: usbfs_outbuf_setup_words)

subsection \<open>C8: a SETUP entry keeps the last two words\<close>

text \<open>
  Claim C8: when \<^verbatim>\<open>usbfs_handle_rxdata\<close> pops a status word for endpoint 0 that is flagged
  as SETUP and has a byte count \<open>n > 8\<close>, it reads \<open>(n + 3) div 4\<close> words from the FIFO,
  one for every four bytes of the count, throws away all but the last two, and stores
  exactly those two, in order, in the two words of the setup packet buffer; the cursor
  ends behind them and the data bytes of the buffer are not written.
\<close>

theorem usbfs_handle_rxdata_setup:
  assumes "hw E (io s) GRSTATP = grstat"
    and "grstat AND K E USBFS_GRSTAT_EPNUM_Msk = 0"
    and "grstat AND K E USBFS_GRSTAT_RPCKST_Msk = K E USBFS_GRSTAT_RPCKST_STP"
    and "n = unat (drop_bit (unat (K E USBFS_GRSTAT_BCOUNT_Pos))
                    (grstat AND K E USBFS_GRSTAT_BCOUNT_Msk))"
    and "8 < n"
  shows "\<exists>ws. length ws = (n + 3) div 4 \<and>
           io (usbfs_handle_rxdata E s) = io s @ Rd GRSTATP grstat # map (Rd DFIFO) ws \<and>
           usbfs_outbuf_v (usbfs_handle_rxdata E s) =
             (ws ! (length ws - 2), ws ! (length ws - 1)) \<and>
           ep0out (usbfs_handle_rxdata E s) = 2 \<and>
           usbfs_outbuf_data (usbfs_handle_rxdata E s) = usbfs_outbuf_data s \<and>
           oob (usbfs_handle_rxdata E s) = oob s"
proof -
  let ?s1 = "snd (reg_read E GRSTATP s)"
  obtain ws where ws: "length ws = (n - 5) div 4"
    "rxdata_discard E n ?s1 = ?s1\<lparr>io := io ?s1 @ map (Rd DFIFO) ws\<rparr>"
    using rxdata_discard_io [of n E ?s1] by blast
  let ?t = "io s @ Rd GRSTATP grstat # map (Rd DFIFO) ws"
  let ?a = "hw E ?t DFIFO"
  let ?b = "hw E (?t @ [Rd DFIFO ?a]) DFIFO"
  let ?ws = "ws @ [?a, ?b]"
  have r: "usbfs_handle_rxdata E s =
      s\<lparr>ep0out := 2, usbfs_outbuf_v := (?a, ?b), io := io s @ Rd GRSTATP grstat # map (Rd DFIFO) ?ws\<rparr>"
    using assms ws(2)
    by (simp add: usbfs_handle_rxdata_def reg_read_eq Let_def ep0out_store_def)
  have l: "length ?ws = (n + 3) div 4"
    using ws(1) \<open>8 < n\<close> by simp
  have v: "(?ws ! (length ?ws - 2), ?ws ! (length ?ws - 1)) = (?a, ?b)"
    by (simp add: nth_append)
  have "length ?ws = (n + 3) div 4 \<and>
        io (usbfs_handle_rxdata E s) = io s @ Rd GRSTATP grstat # map (Rd DFIFO) ?ws \<and>
        usbfs_outbuf_v (usbfs_handle_rxdata E s) =
          (?ws ! (length ?ws - 2), ?ws ! (length ?ws - 1)) \<and>
        ep0out (usbfs_handle_rxdata E s) = 2 \<and>
        usbfs_outbuf_data (usbfs_handle_rxdata E s) = usbfs_outbuf_data s \<and>
        oob (usbfs_handle_rxdata E s) = oob s"
  proof (intro conjI)
    show "length ?ws = (n + 3) div 4" by (rule l)
    show "io (usbfs_handle_rxdata E s) = io s @ Rd GRSTATP grstat # map (Rd DFIFO) ?ws"
      by (simp add: r)
    show "usbfs_outbuf_v (usbfs_handle_rxdata E s) =
          (?ws ! (length ?ws - 2), ?ws ! (length ?ws - 1))"
      by (simp only: v) (simp add: r)
    show "ep0out (usbfs_handle_rxdata E s) = 2" by (simp add: r)
    show "usbfs_outbuf_data (usbfs_handle_rxdata E s) = usbfs_outbuf_data s" by (simp add: r)
    show "oob (usbfs_handle_rxdata E s) = oob s" by (simp add: r)
  qed
  then show ?thesis by (rule exI [where x = ?ws])
qed

theorem usbfs_handle_rxdata_setup_witness:
  "usbfs_handle_rxdata (E0\<lparr>hw := hw_script [(GRSTATP, [0x0C0100]), (DFIFO, [1, 2, 3, 4])]\<rparr>)
     (s0\<lparr>usbfs_outbuf_v := (7, 7)\<rparr>) =
   s0\<lparr>usbfs_outbuf_v := (3, 4),
       io := [Rd GRSTATP 0x0C0100, Rd DFIFO 1, Rd DFIFO 2, Rd DFIFO 3, Rd DFIFO 4]\<rparr>"
proof -
  let ?E = "E0\<lparr>hw := hw_script [(GRSTATP, [0x0C0100]), (DFIFO, [1, 2, 3, 4])]\<rparr>"
  let ?s = "s0\<lparr>usbfs_outbuf_v := (7, 7)\<rparr>"
  obtain ws where ws: "length ws = (16 + 3) div 4"
    "io (usbfs_handle_rxdata ?E ?s) = io ?s @ Rd GRSTATP 0x0C0100 # map (Rd DFIFO) ws"
    "usbfs_outbuf_v (usbfs_handle_rxdata ?E ?s) = (ws ! (length ws - 2), ws ! (length ws - 1))"
    using usbfs_handle_rxdata_setup [where E = ?E and s = ?s and grstat = "0x0C0100" and n = 16]
    by (auto simp add: hw_script_def K0_def)
  show ?thesis
    using ws
    by (simp add: usbfs_handle_rxdata_def reg_read_eq Let_def ep0out_store_def hw_script_def
        K0_def rxdata_discard.simps)
qed

subsection \<open>C9: the reboot on acknowledgement\<close>

text \<open>
  Claim C9: when an endpoint 0 event is handled with no SETUP flag in the flags read, a
  remaining count of zero and \<^verbatim>\<open>usbfs_reboot_on_ack\<close> set, \<^verbatim>\<open>usbfs_handle_ep0\<close>, after
  reading and acknowledging the two flag registers, writes the unlock key to
  \<^verbatim>\<open>DBG->KEY\<close> and then the reset command to \<^verbatim>\<open>DBG->CMD\<close>, and control does not come
  back: the outcome is a system reset, and an interrupt handler that got there does
  nothing after it.
\<close>

theorem usbfs_handle_ep0_reboot:
  "(hw E (io s) (DOEP_INTF 0) AND K E USBFS_DOEPINTF_STPF = 0 \<and> bytes s = 0 \<and>
    usbfs_reboot_on_ack s \<longrightarrow>
      (\<exists>oflags iflags.
         usbfs_handle_ep0 E s =
           SystemReset
             (s\<lparr>io := io s @
                  [Rd (DOEP_INTF 0) oflags, Rd (DIEP_INTF 0) iflags,
                   Wr (DOEP_INTF 0) oflags, Wr (DIEP_INTF 0) iflags,
                   Wr DBG_KEY (K E DBG_KEY_UNLOCK), Wr DBG_CMD (K E DBG_CMD_RESET)]\<rparr>))) \<and>
   (usbfs_irq_rxloop E (fst (reg_read E GINTF t)) (snd (reg_read E GINTF t)) = Some (flags, t') \<and>
    flags AND (K E USBFS_GINTF_OEPIF OR K E USBFS_GINTF_IEPIF) \<noteq> 0 \<and>
    hw E (io t') DAEPINT AND 0x10001 \<noteq> 0 \<and>
    usbfs_handle_ep0 E (snd (reg_read E DAEPINT t')) = SystemReset t'' \<longrightarrow>
      USBFS_IRQHandler E t = Some (SystemReset t''))"
proof (intro conjI impI)
  assume "hw E (io s) (DOEP_INTF 0) AND K E USBFS_DOEPINTF_STPF = 0 \<and> bytes s = 0 \<and>
    usbfs_reboot_on_ack s"
  then have "usbfs_handle_ep0 E s =
      SystemReset
        (s\<lparr>io := io s @
             [Rd (DOEP_INTF 0) (hw E (io s) (DOEP_INTF 0)),
              Rd (DIEP_INTF 0)
                (hw E (io s @ [Rd (DOEP_INTF 0) (hw E (io s) (DOEP_INTF 0))]) (DIEP_INTF 0)),
              Wr (DOEP_INTF 0) (hw E (io s) (DOEP_INTF 0)),
              Wr (DIEP_INTF 0)
                (hw E (io s @ [Rd (DOEP_INTF 0) (hw E (io s) (DOEP_INTF 0))]) (DIEP_INTF 0)),
              Wr DBG_KEY (K E DBG_KEY_UNLOCK), Wr DBG_CMD (K E DBG_CMD_RESET)]\<rparr>)"
    by (simp add: usbfs_handle_ep0_def reg_read_eq reg_write_def Let_def)
  then show "\<exists>oflags iflags.
         usbfs_handle_ep0 E s =
           SystemReset
             (s\<lparr>io := io s @
                  [Rd (DOEP_INTF 0) oflags, Rd (DIEP_INTF 0) iflags,
                   Wr (DOEP_INTF 0) oflags, Wr (DIEP_INTF 0) iflags,
                   Wr DBG_KEY (K E DBG_KEY_UNLOCK), Wr DBG_CMD (K E DBG_CMD_RESET)]\<rparr>)"
    by blast
next
  assume "usbfs_irq_rxloop E (fst (reg_read E GINTF t)) (snd (reg_read E GINTF t)) = Some (flags, t') \<and>
    flags AND (K E USBFS_GINTF_OEPIF OR K E USBFS_GINTF_IEPIF) \<noteq> 0 \<and>
    hw E (io t') DAEPINT AND 0x10001 \<noteq> 0 \<and>
    usbfs_handle_ep0 E (snd (reg_read E DAEPINT t')) = SystemReset t''"
  then show "USBFS_IRQHandler E t = Some (SystemReset t'')"
    by (simp add: USBFS_IRQHandler_def usbfs_handle_endpoints_def reg_read_eq)
qed

theorem usbfs_handle_ep0_reboot_witness:
  "USBFS_IRQHandler (E0\<lparr>hw := hw_script [(GINTF, [0x80000]), (DAEPINT, [1])]\<rparr>)
     (s0\<lparr>usbfs_reboot_on_ack := True\<rparr>) =
   Some (SystemReset
     (s0\<lparr>usbfs_reboot_on_ack := True,
         io := [Rd GINTF 0x80000, Rd DAEPINT 1, Rd (DOEP_INTF 0) 0, Rd (DIEP_INTF 0) 0,
                Wr (DOEP_INTF 0) 0, Wr (DIEP_INTF 0) 0,
                Wr DBG_KEY 0x4B5A6978, Wr DBG_CMD 1]\<rparr>))"
proof -
  let ?E = "E0\<lparr>hw := hw_script [(GINTF, [0x80000]), (DAEPINT, [1])]\<rparr>"
  let ?s = "s0\<lparr>usbfs_reboot_on_ack := True\<rparr>"
  let ?t2 = "?s\<lparr>io := [Rd GINTF 0x80000]\<rparr>"
  let ?t3 = "?s\<lparr>io := [Rd GINTF 0x80000, Rd DAEPINT 1]\<rparr>"
  have r: "reg_read ?E GINTF ?s = (0x80000, ?t2)"
    by (simp add: reg_read_eq hw_script_def)
  have l: "usbfs_irq_rxloop ?E 0x80000 ?t2 = Some (0x80000, ?t2)"
    by (rule usbfs_irq_rxloop_done) (simp add: K0_def)
  have d: "reg_read ?E DAEPINT ?t2 = (1, ?t3)"
    by (simp add: reg_read_eq hw_script_def)
  obtain oflags iflags where e: "usbfs_handle_ep0 ?E ?t3 =
      SystemReset (?t3\<lparr>io := io ?t3 @
                  [Rd (DOEP_INTF 0) oflags, Rd (DIEP_INTF 0) iflags,
                   Wr (DOEP_INTF 0) oflags, Wr (DIEP_INTF 0) iflags,
                   Wr DBG_KEY (K ?E DBG_KEY_UNLOCK), Wr DBG_CMD (K ?E DBG_CMD_RESET)]\<rparr>)"
    using usbfs_handle_ep0_reboot [where E = ?E and s = ?t3, THEN conjunct1]
    by (auto simp add: hw_script_def K0_def)
  have v: "oflags = 0 \<and> iflags = 0"
    using e
    by (auto simp add: usbfs_handle_ep0_def reg_read_eq reg_write_def hw_script_def
        dest!: arg_cong [where f = io])
  have "USBFS_IRQHandler ?E ?s = Some (usbfs_handle_ep0 ?E ?t3)"
    using usbfs_handle_ep0_reboot [where E = ?E and t = ?s and flags = "0x80000" and t' = ?t2,
        THEN conjunct2] r l d e
    by (simp add: K0_def hw_script_def)
  then show ?thesis
    using e v by (simp add: K0_def)
qed

subsection \<open>C10: only the low byte of wIndex is compared\<close>

text \<open>
  Claim C10: the index test of the dispatch compares the rule's index with the low 8
  bits of \<open>wIndex\<close>, and with nothing else of it. A rule whose code matches and whose
  index is congruent to \<open>wIndex\<close> modulo 256 is the rule that decides, whatever the high
  byte; a rule whose index is not the wildcard 0xFF and differs from \<open>wIndex\<close> modulo 256
  is passed over and the scan goes on with the next rule. So GET_STATUS with
  \<open>wIndex = 0x0100\<close> reaches the handler of the rule that asks for index 0, and with
  \<open>wIndex = 0x0005\<close> it reaches no handler.
\<close>

theorem usbfs_setup_handler_scan_index_low_byte:
  "(req h = request p \<and> unat (wIndex p) mod 256 = unat (idx h) \<longrightarrow>
      usbfs_setup_handler_scan (h # hs) p data s =
        (if len h \<noteq> 0xFF \<and> ucast (len h) \<noteq> wLength p then (-1, data, s)
         else fn h p data s)) \<and>
   (idx h \<noteq> 0xFF \<and> unat (wIndex p) mod 256 \<noteq> unat (idx h) \<longrightarrow>
      usbfs_setup_handler_scan (h # hs) p data s = usbfs_setup_handler_scan hs p data s) \<and>
   usbfs_setup_handler_run E
     \<lparr>bmRequestType = 0x80, bRequest = 0, wValue = 0, wIndex = 0x0100, wLength = 2\<rparr> data s =
   usbfs_handle_get_status_device
     \<lparr>bmRequestType = 0x80, bRequest = 0, wValue = 0, wIndex = 0x0100, wLength = 2\<rparr> data s \<and>
   usbfs_setup_handler_run E
     \<lparr>bmRequestType = 0x80, bRequest = 0, wValue = 0, wIndex = 0x0005, wLength = 2\<rparr> data s =
   (-1, data, s)"
proof (intro conjI impI)
  have low: "unat (ucast (wIndex p) :: u8) = unat (wIndex p) mod 256"
    by (simp add: unsigned_ucast_eq take_bit_eq_mod)
  {
    assume a: "req h = request p \<and> unat (wIndex p) mod 256 = unat (idx h)"
    then have "idx h = ucast (wIndex p)"
      using low by (simp add: word_unat_eq_iff)
    then show "usbfs_setup_handler_scan (h # hs) p data s =
          (if len h \<noteq> 0xFF \<and> ucast (len h) \<noteq> wLength p then (-1, data, s)
           else fn h p data s)"
      using a by simp
  }
  {
    assume b: "idx h \<noteq> 0xFF \<and> unat (wIndex p) mod 256 \<noteq> unat (idx h)"
    then have "idx h \<noteq> ucast (wIndex p)"
      using low by auto
    then show "usbfs_setup_handler_scan (h # hs) p data s = usbfs_setup_handler_scan hs p data s"
      using b by simp
  }
  show "usbfs_setup_handler_run E
     \<lparr>bmRequestType = 0x80, bRequest = 0, wValue = 0, wIndex = 0x0100, wLength = 2\<rparr> data s =
   usbfs_handle_get_status_device
     \<lparr>bmRequestType = 0x80, bRequest = 0, wValue = 0, wIndex = 0x0100, wLength = 2\<rparr> data s"
    by (simp add: usbfs_setup_handler_run_def usbfs_setup_handlers_def request_def)
  show "usbfs_setup_handler_run E
     \<lparr>bmRequestType = 0x80, bRequest = 0, wValue = 0, wIndex = 0x0005, wLength = 2\<rparr> data s =
   (-1, data, s)"
    by (simp add: usbfs_setup_handler_run_def usbfs_setup_handlers_def request_def)
qed

theorem usbfs_setup_handler_scan_index_low_byte_witness:
  "usbfs_setup_handler_scan
     [\<lparr>req = 0x0b01, idx = 3, len = 0, fn = usbfs_handle_set_interface0\<rparr>]
     \<lparr>bmRequestType = 0x01, bRequest = 0x0b, wValue = 0, wIndex = 0x0203, wLength = 0\<rparr> [] s0 =
   (0, [], s0) \<and>
   usbfs_setup_handler_scan
     [\<lparr>req = 0x0b01, idx = 3, len = 0, fn = usbfs_handle_set_interface0\<rparr>]
     \<lparr>bmRequestType = 0x01, bRequest = 0x0b, wValue = 0, wIndex = 0x0304, wLength = 0\<rparr> [] s0 =
   (-1, [], s0) \<and>
   fst (usbfs_setup_handler_run E0
     \<lparr>bmRequestType = 0x80, bRequest = 0, wValue = 0, wIndex = 0x0100, wLength = 2\<rparr> [] s0) = 2 \<and>
   fst (usbfs_setup_handler_run E0
     \<lparr>bmRequestType = 0x80, bRequest = 0, wValue = 0, wIndex = 0x0005, wLength = 2\<rparr> [] s0) = -1"
proof -
  let ?h = "\<lparr>req = 0x0b01, idx = 3, len = 0, fn = usbfs_handle_set_interface0\<rparr> :: nat usb_setup_handler"
  let ?p = "\<lparr>bmRequestType = 0x01, bRequest = 0x0b, wValue = 0, wIndex = 0x0203, wLength = 0\<rparr>"
  let ?q = "\<lparr>bmRequestType = 0x01, bRequest = 0x0b, wValue = 0, wIndex = 0x0304, wLength = 0\<rparr>"
  have a: "usbfs_setup_handler_scan [?h] ?p [] s0 = (0, [], s0) \<and>
      fst (usbfs_setup_handler_run E0
        \<lparr>bmRequestType = 0x80, bRequest = 0, wValue = 0, wIndex = 0x0100, wLength = 2\<rparr> [] s0) = 2 \<and>
      fst (usbfs_setup_handler_run E0
        \<lparr>bmRequestType = 0x80, bRequest = 0, wValue = 0, wIndex = 0x0005, wLength = 2\<rparr> [] s0) = -1"
    using usbfs_setup_handler_scan_index_low_byte
      [where h = ?h and p = ?p and hs = "[]" and data = "[]" and s = s0 and E = E0]
    by (simp add: request_def usbfs_handle_set_interface0_def usbfs_handle_get_status_device_def)
  have b: "usbfs_setup_handler_scan [?h] ?q [] s0 = (-1, [], s0)"
    using usbfs_setup_handler_scan_index_low_byte
      [where h = ?h and p = ?q and hs = "[]" and data = "[]" and s = s0 and E = E0]
    by (simp add: request_def)
  show ?thesis
    using a b by simp
qed

end
